theory Spec2Isabelle
  imports Main "HOL-Library.Word" "HOL-Library.Product_Lexorder"
begin

section \<open>Data model (models package)\<close>

text \<open>
  Go's \<open>int\<close> is a 64-bit two's-complement integer on the platforms the service runs
  on: \<open>+\<close> and \<open>-\<close> wrap around, and the order comparisons are the signed
  ones (\<open><s\<close>). A \<open>uuid.UUID\<close> and a \<open>time.Time\<close> are opaque values that the code
  only compares; they are natural numbers here. An \<open>InventoryType\<close> is a Go string.
\<close>

type_synonym go_int = "64 word"
type_synonym uuid = nat
type_synonym timestamp = nat

definition InventoryTypeStokAwal :: string where "InventoryTypeStokAwal = ''stok_awal''"
definition InventoryTypePenerimaan :: string where "InventoryTypePenerimaan = ''penerimaan''"
definition InventoryTypePemakaian :: string where "InventoryTypePemakaian = ''pemakaian''"
definition InventoryTypeMutation :: string where "InventoryTypeMutation = ''mutation''"
definition InventoryTypeOpname :: string where "InventoryTypeOpname = ''opname''"

text \<open>
  \<open>models.Inventory\<close>. Pointer fields are options; \<open>DeletedAt\<close> is the soft-delete
  marker (\<open>None\<close> while the row is live). \<open>UpdatedBy\<close> and \<open>UpdatedAt\<close> are left out:
  the service never assigns \<open>UpdatedBy\<close>, and \<open>UpdatedAt\<close> is a time stamp that gorm sets
  on every write and that nothing reads.
\<close>

record Inventory =
  ID :: uuid
  OrganizationID :: uuid
  ItemID :: nat
  TxnDate :: timestamp
  Amount :: go_int
  Balance :: go_int
  Type :: string
  RefID :: "uuid option"
  TargetID :: "uuid option"
  Source :: "string option"
  FromOrganizationID :: "uuid option"
  ToOrganizationID :: "uuid option"
  PhysicalQty :: "go_int option"
  SystemQty :: "go_int option"
  Difference :: "go_int option"
  CreatedBy :: string
  DeletedBy :: "string option"
  CreatedAt :: timestamp
  DeletedAt :: "timestamp option"
  PageCode :: string
  Notes :: "string option"

text \<open>\<open>models.SnapshotItem\<close>, the compact projection stored in a history record.\<close>

record SnapshotItem =
  InventoryID :: uuid
  STxnDate :: timestamp
  SAmount :: go_int
  SBalance :: go_int
  SType :: string
  SRefID :: "uuid option"

text \<open>
  \<open>models.InventoryHistory\<close>. The two JSON columns hold the marshalled snapshot list;
  \<open>None\<close> is the column that was never assigned. Field names shared with
  \<open>Inventory\<close> carry an \<open>H\<close>.
\<close>

record InventoryHistory =
  HID :: uuid
  HOrganizationID :: uuid
  HItemID :: nat
  TriggerInventoryID :: "uuid option"
  DataBefore :: "SnapshotItem list option"
  DataAfter :: "SnapshotItem list option"
  SnapshotFromDate :: timestamp
  Action :: string
  ChangedBy :: string
  Reason :: "string option"
  HCreatedAt :: timestamp

section \<open>The store and its primitives\<close>

text \<open>
  The two tables in insertion order, the wall clock read by \<open>time.Now()\<close> and the
  source of fresh identifiers (\<open>uuid.New()\<close> and the column default
  \<open>gen_random_uuid()\<close>). Every reading of the clock is later than the one before, and
  every identifier drawn is new.
\<close>

record world =
  inventories :: "Inventory list"
  histories :: "InventoryHistory list"
  clock :: timestamp
  uuid_next :: uuid

datatype error =
    ErrAmountZero
  | ErrPemakaianPositive
  | ErrPenerimaanNegative
  | ErrInvalidType
  | ErrStokAwalExists
  | ErrInsufficientStock
  | ErrRecordNotFound

definition time_Now :: "world \<Rightarrow> timestamp \<times> world" where
  "time_Now s = (clock s, s\<lparr>clock := Suc (clock s)\<rparr>)"

definition uuid_New :: "world \<Rightarrow> uuid \<times> world" where
  "uuid_New s = (uuid_next s, s\<lparr>uuid_next := Suc (uuid_next s)\<rparr>)"

text \<open>\<open>s.DB.Transaction\<close>: an error returned by the body abandons every write.\<close>

definition Transaction ::
  "(world \<Rightarrow> (error + 'a) \<times> world) \<Rightarrow> world \<Rightarrow> (error + 'a) \<times> world" where
  "Transaction body s =
     (case body s of
        (Inl e, s') \<Rightarrow> (Inl e, s'\<lparr>inventories := inventories s, histories := histories s\<rparr>)
      | (Inr v, s') \<Rightarrow> (Inr v, s'))"

text \<open>\<open>tx.Create\<close> on the inventories table and on the histories table.\<close>

definition dbCreate :: "Inventory \<Rightarrow> world \<Rightarrow> world" where
  "dbCreate entry s = s\<lparr>inventories := inventories s @ [entry]\<rparr>"

definition dbCreateHistory :: "InventoryHistory \<Rightarrow> world \<Rightarrow> world" where
  "dbCreateHistory h s = s\<lparr>histories := histories s @ [h]\<rparr>"

text \<open>
  \<open>tx.Save\<close>: all columns of the row with this primary key are overwritten; a value
  whose key is not in the table is inserted.
\<close>

definition saveRow :: "Inventory \<Rightarrow> Inventory list \<Rightarrow> Inventory list" where
  "saveRow entry rows =
     (if ID entry \<in> set (map ID rows)
      then map (\<lambda>r. if ID r = ID entry then entry else r) rows
      else rows @ [entry])"

definition dbSave :: "Inventory \<Rightarrow> world \<Rightarrow> world" where
  "dbSave entry s = s\<lparr>inventories := saveRow entry (inventories s)\<rparr>"

text \<open>
  \<open>Order("txn_date ASC, created_at ASC")\<close> and its descending counterpart. Rows that
  agree on both columns keep their table order.
\<close>

definition orderAsc :: "Inventory list \<Rightarrow> Inventory list" where
  "orderAsc rows = sort_key (\<lambda>r. (TxnDate r, CreatedAt r)) rows"

definition orderDesc :: "Inventory list \<Rightarrow> Inventory list" where
  "orderDesc rows = rev (orderAsc rows)"

text \<open>
  The \<open>Where\<close> clauses. Every query of the service goes through gorm's default scope,
  which adds \<open>deleted_at IS NULL\<close>.
\<close>

definition inPartition :: "uuid \<Rightarrow> nat \<Rightarrow> Inventory \<Rightarrow> bool" where
  "inPartition orgID itemID r \<longleftrightarrow>
     OrganizationID r = orgID \<and> ItemID r = itemID \<and> DeletedAt r = None"

text \<open>
  \<open>tx.First(&existing, id)\<close>: the row with this primary key, looked up under the
  default scope, so a soft-deleted row is not found.
\<close>

definition dbFirst :: "uuid \<Rightarrow> world \<Rightarrow> Inventory option" where
  "dbFirst inventoryID s = find (\<lambda>r. ID r = inventoryID \<and> DeletedAt r = None) (inventories s)"

section \<open>Repository\<close>

text \<open>
  The balance queries run on the repository's own handle rather than on the open
  transaction. The service calls them before the first write of a transaction only, so
  they read the state the transaction started from; the model passes them that state.
\<close>

definition firstBalance :: "Inventory list \<Rightarrow> go_int" where
  "firstBalance rows = (case rows of [] \<Rightarrow> 0 | r # _ \<Rightarrow> Balance r)"

definition GetCurrentBalance :: "uuid \<Rightarrow> nat \<Rightarrow> world \<Rightarrow> go_int" where
  "GetCurrentBalance orgID itemID s =
     firstBalance (orderDesc (filter (inPartition orgID itemID) (inventories s)))"

definition GetBalanceAt :: "uuid \<Rightarrow> nat \<Rightarrow> timestamp \<Rightarrow> world \<Rightarrow> go_int" where
  "GetBalanceAt orgID itemID at s =
     firstBalance (orderDesc
       (filter (\<lambda>r. inPartition orgID itemID r \<and> TxnDate r \<le> at) (inventories s)))"

text \<open>
  The loop of \<open>RecalculateForward\<close>: it walks the tail with the running balance and
  collects \<open>batchUpdates\<close>, the rewritten entries that will be saved. A count entry is
  always collected; any other entry only when its balance changed.
\<close>

fun recalcLoop :: "go_int \<Rightarrow> Inventory list \<Rightarrow> Inventory list" where
  "recalcLoop currentBalance [] = []"
| "recalcLoop currentBalance (entry # rest) =
     (if Type entry = InventoryTypeOpname then
        (let systemQty = currentBalance;
             physicalQty = (case PhysicalQty entry of Some p \<Rightarrow> p | None \<Rightarrow> Balance entry);
             difference = physicalQty - systemQty
         in entry\<lparr>Balance := physicalQty, Amount := difference, SystemQty := Some systemQty,
                 PhysicalQty := Some physicalQty, Difference := Some difference\<rparr>
            # recalcLoop physicalQty rest)
      else
        (let newBalance = currentBalance + Amount entry
         in (if Balance entry \<noteq> newBalance then [entry\<lparr>Balance := newBalance\<rparr>] else [])
            @ recalcLoop newBalance rest))"

definition startBalanceBefore :: "uuid \<Rightarrow> nat \<Rightarrow> timestamp \<Rightarrow> world \<Rightarrow> go_int" where
  "startBalanceBefore orgID itemID fromDate s =
     firstBalance (orderDesc
       (filter (\<lambda>r. inPartition orgID itemID r \<and> TxnDate r < fromDate) (inventories s)))"

definition liveTail :: "uuid \<Rightarrow> nat \<Rightarrow> timestamp \<Rightarrow> world \<Rightarrow> Inventory list" where
  "liveTail orgID itemID fromDate s =
     orderAsc (filter (\<lambda>r. inPartition orgID itemID r \<and> fromDate \<le> TxnDate r) (inventories s))"

definition batchUpdates :: "uuid \<Rightarrow> nat \<Rightarrow> timestamp \<Rightarrow> world \<Rightarrow> Inventory list" where
  "batchUpdates orgID itemID fromDate s =
     recalcLoop (startBalanceBefore orgID itemID fromDate s) (liveTail orgID itemID fromDate s)"

definition RecalculateForward :: "uuid \<Rightarrow> nat \<Rightarrow> timestamp \<Rightarrow> world \<Rightarrow> world" where
  "RecalculateForward orgID itemID fromDate s =
     fold dbSave (batchUpdates orgID itemID fromDate s) s"

section \<open>Service\<close>

text \<open>
  The write operations of \<open>InventoryService\<close> except \<open>RollbackTransaction\<close>, which
  none of the properties below is stated about. The store itself never fails here: the
  errors are the ones the service raises.
\<close>

record CreateTransactionRequest =
  ct_OrganizationID :: uuid
  ct_ItemID :: nat
  ct_TxnDate :: timestamp
  ct_Amount :: go_int
  ct_Type :: string
  ct_ChangedBy :: string
  ct_Reason :: "string option"
  ct_RefID :: "uuid option"
  ct_TargetID :: "uuid option"
  ct_Source :: "string option"
  ct_PageCode :: "string option"
  ct_Notes :: "string option"

record MutationRequest =
  mu_FromOrganizationID :: uuid
  mu_ToOrganizationID :: uuid
  mu_ItemID :: nat
  mu_Quantity :: go_int
  mu_TxnDate :: timestamp
  mu_ChangedBy :: string
  mu_Reason :: "string option"
  mu_RefID :: "uuid option"
  mu_Notes :: "string option"

record OpnameRequest =
  op_OrganizationID :: uuid
  op_ItemID :: nat
  op_PhysicalQty :: go_int
  op_TxnDate :: timestamp
  op_ChangedBy :: string
  op_Reason :: "string option"
  op_RefID :: "uuid option"
  op_Notes :: "string option"

record UpdateTransactionRequest =
  up_InventoryID :: uuid
  up_TxnDate :: timestamp
  up_Amount :: go_int
  up_ChangedBy :: string
  up_Reason :: "string option"
  up_TargetID :: "uuid option"
  up_Notes :: "string option"

definition isValidTransactionType :: "string \<Rightarrow> bool" where
  "isValidTransactionType t \<longleftrightarrow>
     t = ''stok_awal'' \<or> t = ''penerimaan'' \<or> t = ''pemakaian''"

definition checkFirstStockExists :: "uuid \<Rightarrow> nat \<Rightarrow> world \<Rightarrow> bool" where
  "checkFirstStockExists orgID itemID s \<longleftrightarrow>
     0 < length (filter (\<lambda>r. inPartition orgID itemID r \<and> Type r = InventoryTypeStokAwal)
                   (inventories s))"

definition getBalanceBeforeDate :: "uuid \<Rightarrow> nat \<Rightarrow> timestamp \<Rightarrow> uuid \<Rightarrow> world \<Rightarrow> go_int" where
  "getBalanceBeforeDate orgID itemID date excludeID s =
     firstBalance (orderDesc
       (filter (\<lambda>r. inPartition orgID itemID r \<and> TxnDate r < date \<and> ID r \<noteq> excludeID)
          (inventories s)))"

definition toSnapshotItem :: "Inventory \<Rightarrow> SnapshotItem" where
  "toSnapshotItem entry =
     \<lparr>InventoryID = ID entry, STxnDate = TxnDate entry, SAmount = Amount entry,
      SBalance = Balance entry, SType = Type entry, SRefID = RefID entry\<rparr>"

text \<open>
  \<open>createHistory\<close>: the live tail of the entry's partition from the entry's date, stored
  as \<open>DataBefore\<close> for the two \<open>*_BEFORE\<close> actions and as \<open>DataAfter\<close> otherwise.
\<close>

definition createHistory ::
  "Inventory \<Rightarrow> string \<Rightarrow> string \<Rightarrow> string option \<Rightarrow> world \<Rightarrow> world" where
  "createHistory inventory action changedBy reason s =
     (let snapshotItems =
            map toSnapshotItem (liveTail (OrganizationID inventory) (ItemID inventory)
                                  (TxnDate inventory) s);
          (createdAt, s1) = time_Now s;
          (hid, s2) = uuid_New s1;
          before = (action = ''UPDATE_BEFORE'' \<or> action = ''DELETE_BEFORE'')
      in dbCreateHistory
           \<lparr>HID = hid, HOrganizationID = OrganizationID inventory, HItemID = ItemID inventory,
            TriggerInventoryID = Some (ID inventory),
            DataBefore = (if before then Some snapshotItems else None),
            DataAfter = (if before then None else Some snapshotItems),
            SnapshotFromDate = TxnDate inventory, Action = action, ChangedBy = changedBy,
            Reason = reason, HCreatedAt = createdAt\<rparr> s2)"

definition newInventory :: Inventory where
  "newInventory =
     \<lparr>ID = 0, OrganizationID = 0, ItemID = 0, TxnDate = 0, Amount = 0, Balance = 0,
      Type = [], RefID = None, TargetID = None, Source = None, FromOrganizationID = None,
      ToOrganizationID = None, PhysicalQty = None, SystemQty = None, Difference = None,
      CreatedBy = [], DeletedBy = None, CreatedAt = 0, DeletedAt = None, PageCode = [],
      Notes = None\<rparr>"

definition CreateTransaction ::
  "CreateTransactionRequest \<Rightarrow> world \<Rightarrow> (error + Inventory) \<times> world" where
  "CreateTransaction req s =
     (if ct_Amount req = 0 then (Inl ErrAmountZero, s)
      else if ct_Type req = ''pemakaian'' \<and> 0 <s ct_Amount req then (Inl ErrPemakaianPositive, s)
      else if ct_Type req = ''penerimaan'' \<and> ct_Amount req <s 0 then (Inl ErrPenerimaanNegative, s)
      else Transaction (\<lambda>tx.
        if \<not> isValidTransactionType (ct_Type req) then (Inl ErrInvalidType, tx)
        else if ct_Type req = ''stok_awal''
                \<and> checkFirstStockExists (ct_OrganizationID req) (ct_ItemID req) tx
        then (Inl ErrStokAwalExists, tx)
        else
          (let prevBalance = GetBalanceAt (ct_OrganizationID req) (ct_ItemID req) (ct_TxnDate req) tx;
               newBalance = prevBalance + ct_Amount req;
               (createdAt, tx1) = time_Now tx;
               (newID, tx2) = uuid_New tx1;
               inventory = newInventory\<lparr>ID := newID,
                 OrganizationID := ct_OrganizationID req, ItemID := ct_ItemID req,
                 TxnDate := ct_TxnDate req, Amount := ct_Amount req, Balance := newBalance,
                 Type := ct_Type req, RefID := ct_RefID req, TargetID := ct_TargetID req,
                 Source := ct_Source req,
                 PageCode := (case ct_PageCode req of None \<Rightarrow> [] | Some p \<Rightarrow> p),
                 Notes := ct_Notes req, CreatedBy := ct_ChangedBy req, CreatedAt := createdAt\<rparr>;
               tx3 = dbCreate inventory tx2;
               tx4 = createHistory inventory ''CREATE'' (ct_ChangedBy req) (ct_Reason req) tx3
           in (Inr inventory,
               RecalculateForward (ct_OrganizationID req) (ct_ItemID req) (ct_TxnDate req) tx4))) s)"

definition CreateMutation :: "MutationRequest \<Rightarrow> world \<Rightarrow> (error + unit) \<times> world" where
  "CreateMutation req s =
     Transaction (\<lambda>tx.
       (let sourceBalance = GetBalanceAt (mu_FromOrganizationID req) (mu_ItemID req) (mu_TxnDate req) tx
        in if sourceBalance <s mu_Quantity req then (Inl ErrInsufficientStock, tx)
           else
            (let (refID, tx1) = uuid_New tx;
                 sourcePrevBalance =
                   GetBalanceAt (mu_FromOrganizationID req) (mu_ItemID req) (mu_TxnDate req) tx1;
                 (srcCreatedAt, tx2) = time_Now tx1;
                 sourceInv = newInventory\<lparr>
                   OrganizationID := mu_FromOrganizationID req, ItemID := mu_ItemID req,
                   TxnDate := mu_TxnDate req, Amount := - mu_Quantity req,
                   Balance := sourcePrevBalance - mu_Quantity req,
                   Type := InventoryTypeMutation, RefID := Some refID,
                   FromOrganizationID := Some (mu_FromOrganizationID req),
                   ToOrganizationID := Some (mu_ToOrganizationID req),
                   Notes := mu_Notes req, CreatedBy := mu_ChangedBy req,
                   CreatedAt := srcCreatedAt\<rparr>;
                 destPrevBalance =
                   GetBalanceAt (mu_ToOrganizationID req) (mu_ItemID req) (mu_TxnDate req) tx2;
                 (dstCreatedAt, tx3) = time_Now tx2;
                 destInv = newInventory\<lparr>
                   OrganizationID := mu_ToOrganizationID req, ItemID := mu_ItemID req,
                   TxnDate := mu_TxnDate req, Amount := mu_Quantity req,
                   Balance := destPrevBalance + mu_Quantity req,
                   Type := InventoryTypeMutation, RefID := Some refID,
                   FromOrganizationID := Some (mu_FromOrganizationID req),
                   ToOrganizationID := Some (mu_ToOrganizationID req),
                   Notes := mu_Notes req, CreatedBy := mu_ChangedBy req,
                   CreatedAt := dstCreatedAt\<rparr>;
                 (srcID, tx4) = uuid_New tx3;
                 sourceInv = sourceInv\<lparr>ID := srcID\<rparr>;
                 tx5 = dbCreate sourceInv tx4;
                 (dstID, tx6) = uuid_New tx5;
                 destInv = destInv\<lparr>ID := dstID\<rparr>;
                 tx7 = dbCreate destInv tx6;
                 tx8 = createHistory sourceInv ''MUTATION_OUT'' (mu_ChangedBy req) (mu_Reason req) tx7;
                 tx9 = createHistory destInv ''MUTATION_IN'' (mu_ChangedBy req) (mu_Reason req) tx8;
                 tx10 = RecalculateForward (mu_FromOrganizationID req) (mu_ItemID req)
                          (mu_TxnDate req) tx9
             in (Inr (),
                 RecalculateForward (mu_ToOrganizationID req) (mu_ItemID req)
                   (mu_TxnDate req) tx10)))) s"

definition CreateOpname :: "OpnameRequest \<Rightarrow> world \<Rightarrow> (error + Inventory) \<times> world" where
  "CreateOpname req s =
     Transaction (\<lambda>tx.
       (let systemBalance = GetBalanceAt (op_OrganizationID req) (op_ItemID req) (op_TxnDate req) tx;
            difference = op_PhysicalQty req - systemBalance;
            (createdAt, tx1) = time_Now tx;
            (newID, tx2) = uuid_New tx1;
            inventory = newInventory\<lparr>ID := newID,
              OrganizationID := op_OrganizationID req, ItemID := op_ItemID req,
              TxnDate := op_TxnDate req, Amount := difference, Balance := op_PhysicalQty req,
              Type := InventoryTypeOpname, RefID := op_RefID req,
              PhysicalQty := Some (op_PhysicalQty req), SystemQty := Some systemBalance,
              Difference := Some difference, Notes := op_Notes req,
              CreatedBy := op_ChangedBy req, CreatedAt := createdAt\<rparr>;
            tx3 = dbCreate inventory tx2;
            tx4 = createHistory inventory ''OPNAME'' (op_ChangedBy req) (op_Reason req) tx3
        in (Inr inventory,
            RecalculateForward (op_OrganizationID req) (op_ItemID req) (op_TxnDate req) tx4))) s"

definition handleOpnameUpdate ::
  "Inventory \<Rightarrow> UpdateTransactionRequest \<Rightarrow> world \<Rightarrow> (error + unit) \<times> world" where
  "handleOpnameUpdate existing req tx =
     (let prevBalance = getBalanceBeforeDate (OrganizationID existing) (ItemID existing)
                          (up_TxnDate req) (ID existing) tx;
          newDifference = up_Amount req;
          newSystemQty = prevBalance;
          newPhysicalQty = prevBalance + up_Amount req;
          (deletedAt, tx1) = time_Now tx;
          existing = existing\<lparr>DeletedBy := Some (up_ChangedBy req), DeletedAt := Some deletedAt\<rparr>;
          tx2 = dbSave existing tx1;
          (createdAt, tx3) = time_Now tx2;
          (newID, tx4) = uuid_New tx3;
          newOpname = newInventory\<lparr>ID := newID,
            OrganizationID := OrganizationID existing, ItemID := ItemID existing,
            TxnDate := up_TxnDate req, Amount := up_Amount req, Balance := newPhysicalQty,
            Type := InventoryTypeOpname, RefID := RefID existing,
            PhysicalQty := Some newPhysicalQty, SystemQty := Some newSystemQty,
            Difference := Some newDifference, Notes := up_Notes req,
            CreatedBy := up_ChangedBy req, CreatedAt := createdAt\<rparr>;
          tx5 = dbCreate newOpname tx4
      in (Inr (),
          RecalculateForward (OrganizationID existing) (ItemID existing) (up_TxnDate req) tx5))"

definition UpdateTransaction ::
  "UpdateTransactionRequest \<Rightarrow> world \<Rightarrow> (error + unit) \<times> world" where
  "UpdateTransaction req s =
     Transaction (\<lambda>tx.
       case dbFirst (up_InventoryID req) tx of
         None \<Rightarrow> (Inl ErrRecordNotFound, tx)
       | Some existing \<Rightarrow>
          (let tx1 = createHistory existing ''UPDATE_BEFORE'' (up_ChangedBy req) (up_Reason req) tx
           in if Type existing = InventoryTypeOpname then handleOpnameUpdate existing req tx1
              else
               (let (deletedAt, tx2) = time_Now tx1;
                    existing = existing\<lparr>DeletedBy := Some (up_ChangedBy req),
                                        DeletedAt := Some deletedAt\<rparr>;
                    tx3 = dbSave existing tx2;
                    prevBalance = getBalanceBeforeDate (OrganizationID existing) (ItemID existing)
                                    (up_TxnDate req) (ID existing) tx3;
                    (createdAt, tx4) = time_Now tx3;
                    newInv = newInventory\<lparr>
                      OrganizationID := OrganizationID existing, ItemID := ItemID existing,
                      TxnDate := up_TxnDate req, Amount := up_Amount req,
                      Balance := prevBalance + up_Amount req, Type := Type existing,
                      RefID := RefID existing, TargetID := up_TargetID req,
                      Source := Source existing, PageCode := PageCode existing,
                      Notes := up_Notes req, CreatedBy := up_ChangedBy req,
                      CreatedAt := createdAt\<rparr>;
                    newInv = (if Type existing = InventoryTypeMutation
                              then newInv\<lparr>FromOrganizationID := FromOrganizationID existing,
                                          ToOrganizationID := ToOrganizationID existing\<rparr>
                              else newInv);
                    newInv = (if Type existing = InventoryTypeOpname
                              then (let n = newInv\<lparr>PhysicalQty := PhysicalQty existing,
                                                     SystemQty := SystemQty existing,
                                                     Difference := Difference existing\<rparr>
                                    in case PhysicalQty existing of
                                         None \<Rightarrow> n | Some p \<Rightarrow> n\<lparr>Balance := p\<rparr>)
                              else newInv);
                    (newID, tx5) = uuid_New tx4;
                    newInv = newInv\<lparr>ID := newID\<rparr>;
                    tx6 = dbCreate newInv tx5;
                    tx7 = createHistory newInv ''UPDATE_AFTER'' (up_ChangedBy req) (up_Reason req) tx6;
                    earliestDate = (if up_TxnDate req < TxnDate existing
                                    then up_TxnDate req else TxnDate existing)
                in (Inr (),
                    RecalculateForward (OrganizationID existing) (ItemID existing)
                      earliestDate tx7)))) s"

definition DeleteTransaction ::
  "uuid \<Rightarrow> string \<Rightarrow> string option \<Rightarrow> world \<Rightarrow> (error + unit) \<times> world" where
  "DeleteTransaction inventoryID deletedBy reason s =
     Transaction (\<lambda>tx.
       case dbFirst inventoryID tx of
         None \<Rightarrow> (Inl ErrRecordNotFound, tx)
       | Some inventory \<Rightarrow>
          (let tx1 = createHistory inventory ''DELETE_BEFORE'' deletedBy reason tx;
               (deletedAt, tx2) = time_Now tx1;
               inventory = inventory\<lparr>DeletedBy := Some deletedBy, DeletedAt := Some deletedAt\<rparr>;
               tx3 = dbSave inventory tx2
           in (Inr (),
               RecalculateForward (OrganizationID inventory) (ItemID inventory)
                 (TxnDate inventory) tx3))) s"

definition emptyWorld :: world where
  "emptyWorld = \<lparr>inventories = [], histories = [], clock = 1, uuid_next = 1\<rparr>"

section \<open>Specification predicates and auxiliary functions\<close>

text \<open>
  The \<open>transactions\<close> slice as \<open>RecalculateForward\<close> leaves it when its loop ends:
  every entry of the tail rewritten in place, whether or not it is saved afterwards.
\<close>

fun recalcArray :: "go_int \<Rightarrow> Inventory list \<Rightarrow> Inventory list" where
  "recalcArray currentBalance [] = []"
| "recalcArray currentBalance (entry # rest) =
     (if Type entry = InventoryTypeOpname then
        (let systemQty = currentBalance;
             physicalQty = (case PhysicalQty entry of Some p \<Rightarrow> p | None \<Rightarrow> Balance entry);
             difference = physicalQty - systemQty
         in entry\<lparr>Balance := physicalQty, Amount := difference, SystemQty := Some systemQty,
                 PhysicalQty := Some physicalQty, Difference := Some difference\<rparr>
            # recalcArray physicalQty rest)
      else
        (let newBalance = currentBalance + Amount entry
         in entry\<lparr>Balance := newBalance\<rparr> # recalcArray newBalance rest))"

definition tailArray :: "uuid \<Rightarrow> nat \<Rightarrow> timestamp \<Rightarrow> world \<Rightarrow> Inventory list" where
  "tailArray org item d s =
     recalcArray (startBalanceBefore org item d s) (liveTail org item d s)"

text \<open>
  \<open>patch us r\<close> is the row that the table holds for \<open>r\<close> once every entry of
  \<open>us\<close> has been saved.
\<close>

fun patch :: "Inventory list \<Rightarrow> Inventory \<Rightarrow> Inventory" where
  "patch [] r = r"
| "patch (u # us) r = (if ID u = ID r then u else patch us r)"

text \<open>
  The columns that a recalculation never changes; the amount is among them for every
  entry that is not a count.
\<close>

definition keeps :: "Inventory \<Rightarrow> Inventory \<Rightarrow> bool" where
  "keeps r r' \<longleftrightarrow>
     ID r' = ID r \<and> OrganizationID r' = OrganizationID r \<and> ItemID r' = ItemID r \<and>
     TxnDate r' = TxnDate r \<and> Type r' = Type r \<and> RefID r' = RefID r \<and>
     FromOrganizationID r' = FromOrganizationID r \<and> ToOrganizationID r' = ToOrganizationID r \<and>
     CreatedAt r' = CreatedAt r \<and> DeletedAt r' = DeletedAt r \<and>
     (Type r \<noteq> InventoryTypeOpname \<longrightarrow> Amount r' = Amount r)"

text \<open>
  The balance law of a partition, read along its live entries in canonical order: an
  entry that is not a count has the preceding balance plus its amount, a count entry
  has its physical quantity.
\<close>

fun balanceLaw :: "go_int \<Rightarrow> Inventory list \<Rightarrow> bool" where
  "balanceLaw prev [] = True"
| "balanceLaw prev (e # es) =
     ((if Type e = InventoryTypeOpname then PhysicalQty e = Some (Balance e)
       else Balance e = prev + Amount e)
      \<and> balanceLaw (Balance e) es)"

definition balanceConsistent :: "uuid \<Rightarrow> nat \<Rightarrow> world \<Rightarrow> bool" where
  "balanceConsistent orgID itemID s \<longleftrightarrow>
     balanceLaw 0 (orderAsc (filter (inPartition orgID itemID) (inventories s)))"

section \<open>The HTTP boundary of the mutation endpoint\<close>

text \<open>
  \<open>handlers.MutationRequest\<close> as decoded from the JSON body, and the checks of its
  \<open>binding\<close> tags: \<open>required\<close> rejects the zero value of a field, \<open>min=1\<close> a
  quantity below one.
\<close>

record HandlerMutationRequest =
  hm_FromOrganizationID :: uuid
  hm_ToOrganizationID :: uuid
  hm_ItemID :: nat
  hm_Quantity :: go_int
  hm_TxnDate :: string
  hm_ChangedBy :: string
  hm_Reason :: "string option"
  hm_RefID :: "uuid option"
  hm_Notes :: "string option"

definition bindMutationRequest :: "HandlerMutationRequest \<Rightarrow> bool" where
  "bindMutationRequest req \<longleftrightarrow>
     hm_FromOrganizationID req \<noteq> 0 \<and> hm_ToOrganizationID req \<noteq> 0 \<and> hm_ItemID req \<noteq> 0 \<and>
     hm_Quantity req \<noteq> 0 \<and> \<not> hm_Quantity req <s 1 \<and>
     hm_TxnDate req \<noteq> [] \<and> hm_ChangedBy req \<noteq> []"

text \<open>
  \<open>InventoryHandler.CreateMutation\<close>, returning the HTTP status. The two layouts tried
  by \<open>time.Parse\<close> are parameters: the \<open>time\<close> package is not part of the repository.
\<close>

definition HandlerCreateMutation ::
  "(string \<Rightarrow> timestamp option) \<Rightarrow> (string \<Rightarrow> timestamp option) \<Rightarrow>
   HandlerMutationRequest \<Rightarrow> world \<Rightarrow> nat \<times> world" where
  "HandlerCreateMutation parseRFC3339 parseLocal req s =
     (if \<not> bindMutationRequest req then (400, s)
      else
        (case (case parseRFC3339 (hm_TxnDate req) of
                 Some t \<Rightarrow> Some t
               | None \<Rightarrow> parseLocal (hm_TxnDate req)) of
           None \<Rightarrow> (400, s)
         | Some txnDate \<Rightarrow>
            (case CreateMutation
                    \<lparr>mu_FromOrganizationID = hm_FromOrganizationID req,
                     mu_ToOrganizationID = hm_ToOrganizationID req,
                     mu_ItemID = hm_ItemID req, mu_Quantity = hm_Quantity req,
                     mu_TxnDate = txnDate, mu_ChangedBy = hm_ChangedBy req,
                     mu_Reason = hm_Reason req, mu_RefID = hm_RefID req,
                     mu_Notes = hm_Notes req\<rparr> s of
               (Inl e, s') \<Rightarrow> (400, s')
             | (Inr u, s') \<Rightarrow> (201, s'))))"

section \<open>Example ledgers\<close>

text \<open>
  Requests with the optional fields left out, as the test suite builds them. Dates are
  day numbers; organization \<open>101\<close> and \<open>102\<close>, item \<open>1\<close>.
\<close>

definition createReq :: "uuid \<Rightarrow> nat \<Rightarrow> timestamp \<Rightarrow> go_int \<Rightarrow> string \<Rightarrow> CreateTransactionRequest" where
  "createReq orgID itemID txnDate amount kind =
     \<lparr>ct_OrganizationID = orgID, ct_ItemID = itemID, ct_TxnDate = txnDate, ct_Amount = amount,
      ct_Type = kind, ct_ChangedBy = ''user1'', ct_Reason = None, ct_RefID = None,
      ct_TargetID = None, ct_Source = None, ct_PageCode = None, ct_Notes = None\<rparr>"

definition opnameReq :: "uuid \<Rightarrow> nat \<Rightarrow> timestamp \<Rightarrow> go_int \<Rightarrow> OpnameRequest" where
  "opnameReq orgID itemID txnDate physicalQty =
     \<lparr>op_OrganizationID = orgID, op_ItemID = itemID, op_PhysicalQty = physicalQty,
      op_TxnDate = txnDate, op_ChangedBy = ''auditor'', op_Reason = None, op_RefID = None,
      op_Notes = None\<rparr>"

definition mutationReq :: "uuid \<Rightarrow> uuid \<Rightarrow> nat \<Rightarrow> go_int \<Rightarrow> timestamp \<Rightarrow> MutationRequest" where
  "mutationReq fromID toID itemID quantity txnDate =
     \<lparr>mu_FromOrganizationID = fromID, mu_ToOrganizationID = toID, mu_ItemID = itemID,
      mu_Quantity = quantity, mu_TxnDate = txnDate, mu_ChangedBy = ''admin'',
      mu_Reason = None, mu_RefID = None, mu_Notes = None\<rparr>"

definition updateReq :: "uuid \<Rightarrow> timestamp \<Rightarrow> go_int \<Rightarrow> UpdateTransactionRequest" where
  "updateReq inventoryID txnDate amount =
     \<lparr>up_InventoryID = inventoryID, up_TxnDate = txnDate, up_Amount = amount,
      up_ChangedBy = ''user2'', up_Reason = None, up_TargetID = None, up_Notes = None\<rparr>"

text \<open>Receipt \<open>+100\<close> on day 1 (entry 1), then a count of 120 on day 2 (entry 3).\<close>

definition countLedger :: world where
  "countLedger =
     snd (CreateOpname (opnameReq 101 1 2 120)
       (snd (CreateTransaction (createReq 101 1 1 100 ''penerimaan'') emptyWorld)))"

text \<open>The same ledger with an issue \<open>-10\<close> on day 3 (entry 5).\<close>

definition countIssueLedger :: world where
  "countIssueLedger =
     snd (CreateTransaction (createReq 101 1 3 (- 10) ''pemakaian'') countLedger)"

text \<open>Deltas \<open>+100\<close>, \<open>-30\<close>, \<open>-20\<close> on three consecutive days (entries 1, 3 and 5).\<close>

definition threeDayLedger :: world where
  "threeDayLedger =
     snd (CreateTransaction (createReq 101 1 3 (- 20) ''pemakaian'')
       (snd (CreateTransaction (createReq 101 1 2 (- 30) ''pemakaian'')
         (snd (CreateTransaction (createReq 101 1 1 100 ''penerimaan'') emptyWorld)))))"

text \<open>
  Receipt \<open>+500\<close> in organization 101 on day 1, then a transfer of 150 to organization
  102 on day 2 (reference 3, entries 4 and 5).
\<close>

definition receiptLedger :: world where
  "receiptLedger = snd (CreateTransaction (createReq 101 1 1 500 ''penerimaan'') emptyWorld)"

definition transferLedger :: world where
  "transferLedger = snd (CreateMutation (mutationReq 101 102 1 150 2) receiptLedger)"

definition firstStockLedger :: world where
  "firstStockLedger = snd (CreateTransaction (createReq 103 1 1 50 ''stok_awal'') emptyWorld)"

text \<open>The three-day ledger after its middle entry (entry 3) has been deleted.\<close>

definition threeDayDeleted :: world where
  "threeDayDeleted = snd (DeleteTransaction 3 ''admin'' None threeDayLedger)"

text \<open>A decoded mutation request body with the given quantity.\<close>

definition handlerMutationReq :: "go_int \<Rightarrow> HandlerMutationRequest" where
  "handlerMutationReq quantity =
     \<lparr>hm_FromOrganizationID = 101, hm_ToOrganizationID = 102, hm_ItemID = 1,
      hm_Quantity = quantity, hm_TxnDate = ''2024-04-02T10:00:00Z'', hm_ChangedBy = ''admin'',
      hm_Reason = None, hm_RefID = None, hm_Notes = None\<rparr>"

section \<open>Properties of the store primitives\<close>

lemma keeps_refl: "keeps r r"
  by (simp add: keeps_def)

lemma keeps_trans: "keeps a b \<Longrightarrow> keeps b c \<Longrightarrow> keeps a c"
  by (simp add: keeps_def)

lemma patch_ID: "ID (patch us r) = ID r"
  by (induction us) auto

lemma patch_notin: "ID r \<notin> ID ` set us \<Longrightarrow> patch us r = r"
  by (induction us) auto

lemma patch_in: "distinct (map ID us) \<Longrightarrow> u \<in> set us \<Longrightarrow> ID u = ID r \<Longrightarrow> patch us r = u"
  by (induction us) (auto simp: rev_image_eqI)

lemma patch_cases: "patch us r = r \<or> (patch us r \<in> set us \<and> ID (patch us r) = ID r)"
  by (induction us) auto

lemma saveRow_present:
  "ID u \<in> ID ` set rows \<Longrightarrow> saveRow u rows = map (\<lambda>r. if ID r = ID u then u else r) rows"
  by (simp add: saveRow_def)

lemma fold_saveRow_patch:
  "distinct (map ID us) \<Longrightarrow> ID ` set us \<subseteq> ID ` set rows \<Longrightarrow>
   fold saveRow us rows = map (patch us) rows"
proof (induction us arbitrary: rows)
  case Nil
  then show ?case by (simp add: map_idI)
next
  case (Cons u us)
  let ?h = "\<lambda>r. if ID r = ID u then u else r"
  have ids: "map ID (map ?h rows) = map ID rows" by (induction rows) auto
  have sv: "saveRow u rows = map ?h rows"
    using Cons.prems(2) by (simp add: saveRow_present)
  have "ID ` set us \<subseteq> ID ` set (map ?h rows)"
    using Cons.prems(2) ids by (metis (no_types, lifting) insert_subset list.set(2) image_insert set_map)
  then have "fold saveRow us (map ?h rows) = map (patch us) (map ?h rows)"
    using Cons.IH Cons.prems(1) by simp
  moreover have "patch us (?h r) = patch (u # us) r" for r
    using Cons.prems(1) by (auto simp: patch_notin)
  ultimately show ?case by (simp add: sv)
qed

lemma recalcLoop_ids: "ID ` set (recalcLoop c xs) \<subseteq> ID ` set xs"
  by (induction xs arbitrary: c) (auto simp: Let_def)

lemma recalcLoop_distinct: "distinct (map ID xs) \<Longrightarrow> distinct (map ID (recalcLoop c xs))"
proof (induction xs arbitrary: c)
  case Nil
  then show ?case by simp
next
  case (Cons x xs)
  then show ?case using recalcLoop_ids by (fastforce simp: Let_def)
qed

lemma recalcArray_keeps: "list_all2 keeps xs (recalcArray c xs)"
  by (induction xs arbitrary: c) (auto simp: Let_def keeps_def)

lemma recalcArray_ids: "map ID (recalcArray c xs) = map ID xs"
  by (induction xs arbitrary: c) (auto simp: Let_def)

lemma patch_loop_array:
  "distinct (map ID rows) \<Longrightarrow> set xs \<subseteq> set rows \<Longrightarrow> distinct (map ID xs) \<Longrightarrow> r \<in> set rows \<Longrightarrow>
   patch (recalcLoop c xs) r = patch (recalcArray c xs) r"
proof (induction xs arbitrary: c)
  case Nil
  then show ?case by simp
next
  case (Cons x xs)
  have inj: "ID x = ID r \<Longrightarrow> x = r"
    using Cons.prems by (auto simp: distinct_map dest: inj_onD)
  have notin: "ID x \<notin> ID ` set (recalcLoop c' xs)" for c'
    using Cons.prems(3) recalcLoop_ids[of c' xs] by auto
  have ih: "patch (recalcLoop c' xs) r = patch (recalcArray c' xs) r" for c'
    using Cons by simp
  show ?case
  proof (cases "Type x \<noteq> InventoryTypeOpname \<and> Balance x = c + Amount x")
    case True
    then show ?thesis using ih inj notin by (auto simp: Let_def patch_notin)
  next
    case False
    then show ?thesis using ih by (auto simp: Let_def)
  qed
qed

lemma fold_dbSave: "fold dbSave us s = s\<lparr>inventories := fold saveRow us (inventories s)\<rparr>"
  by (induction us arbitrary: s) (auto simp: dbSave_def)

lemma insort_key_map_cong:
  "\<forall>y\<in>set (x # xs). k (f y) = k y \<Longrightarrow>
   insort_key k (f x) (map f xs) = map f (insort_key k x xs)"
  by (induction xs) auto

lemma sort_key_map_cong:
  "\<forall>y\<in>set xs. k (f y) = k y \<Longrightarrow> sort_key k (map f xs) = map f (sort_key k xs)"
proof (induction xs)
  case Nil
  then show ?case by simp
next
  case (Cons x xs)
  have "\<forall>y\<in>set (x # sort_key k xs). k (f y) = k y" using Cons.prems by simp
  then show ?case using Cons by (simp add: insort_key_map_cong)
qed

lemma filter_map_cong:
  "\<forall>y\<in>set xs. P (f y) = P y \<Longrightarrow> filter P (map f xs) = map f (filter P xs)"
  by (induction xs) auto

lemma orderAsc_set: "set (orderAsc xs) = set xs"
  by (simp add: orderAsc_def)

lemma distinct_map_insort_key:
  "distinct (map f (insort_key k x xs)) = (f x \<notin> f ` set xs \<and> distinct (map f xs))"
  by (induction xs) (auto simp: set_insort_key)

lemma orderAsc_distinct_ids: "distinct (map ID xs) \<Longrightarrow> distinct (map ID (orderAsc xs))"
  unfolding orderAsc_def by (induction xs) (simp_all add: distinct_map_insort_key)

lemma liveTail_subset: "set (liveTail org item d s) \<subseteq> set (inventories s)"
  by (auto simp: liveTail_def orderAsc_set)

lemma liveTail_distinct:
  "distinct (map ID (inventories s)) \<Longrightarrow> distinct (map ID (liveTail org item d s))"
  by (simp add: liveTail_def orderAsc_distinct_ids distinct_map_filter)

lemma RecalculateForward_patch:
  assumes "distinct (map ID (inventories s))"
  shows "RecalculateForward org item d s =
         s\<lparr>inventories := map (patch (tailArray org item d s)) (inventories s)\<rparr>"
proof -
  let ?tail = "liveTail org item d s"
  let ?c = "startBalanceBefore org item d s"
  have d: "distinct (map ID ?tail)" using assms by (rule liveTail_distinct)
  have sub: "set ?tail \<subseteq> set (inventories s)" by (rule liveTail_subset)
  have "ID ` set (recalcLoop ?c ?tail) \<subseteq> ID ` set (inventories s)"
    using recalcLoop_ids[of ?c ?tail] sub by blast
  then have "fold saveRow (recalcLoop ?c ?tail) (inventories s)
             = map (patch (recalcLoop ?c ?tail)) (inventories s)"
    using fold_saveRow_patch recalcLoop_distinct[OF d] by blast
  also have "\<dots> = map (patch (recalcArray ?c ?tail)) (inventories s)"
    using patch_loop_array[OF assms sub d] by simp
  finally show ?thesis
    by (simp add: RecalculateForward_def batchUpdates_def fold_dbSave tailArray_def)
qed

lemma recalcArray_origin: "u \<in> set (recalcArray c xs) \<Longrightarrow> \<exists>t\<in>set xs. keeps t u"
proof -
  assume "u \<in> set (recalcArray c xs)"
  then obtain i where i: "i < length (recalcArray c xs)" "u = recalcArray c xs ! i"
    by (auto simp: in_set_conv_nth)
  have l: "list_all2 keeps xs (recalcArray c xs)" by (rule recalcArray_keeps)
  then have "i < length xs" using i by (simp add: list_all2_lengthD)
  moreover from this have "keeps (xs ! i) u" using l i by (simp add: list_all2_nthD)
  ultimately show ?thesis using nth_mem by blast
qed

lemma patch_tail_keeps:
  assumes "distinct (map ID (inventories s))" and "r \<in> set (inventories s)"
  shows "keeps r (patch (tailArray org item d s) r)"
proof -
  let ?p = "patch (tailArray org item d s) r"
  consider "?p = r" | "?p \<in> set (tailArray org item d s)" "ID ?p = ID r"
    using patch_cases by blast
  then show ?thesis
  proof cases
    case 1
    then show ?thesis by (simp add: keeps_refl)
  next
    case 2
    then obtain t where t: "t \<in> set (liveTail org item d s)" "keeps t ?p"
      unfolding tailArray_def using recalcArray_origin by blast
    have "t \<in> set (inventories s)" using t(1) liveTail_subset by blast
    moreover have "ID t = ID r" using t(2) 2(2) by (simp add: keeps_def)
    ultimately have "t \<in> set (inventories s)" "ID t = ID r" by simp_all
    then have "t = r" using assms by (auto simp: distinct_map dest: inj_onD)
    then show ?thesis using t by simp
  qed
qed

lemma patch_outside_tail:
  assumes "distinct (map ID (inventories s))" and "r \<in> set (inventories s)"
    and "r \<notin> set (liveTail org item d s)"
  shows "patch (tailArray org item d s) r = r"
proof -
  have "ID r \<notin> ID ` set (liveTail org item d s)"
  proof
    assume "ID r \<in> ID ` set (liveTail org item d s)"
    then obtain t where t: "t \<in> set (liveTail org item d s)" "ID t = ID r" by auto
    then have "t \<in> set (inventories s)" using liveTail_subset by blast
    then have "t = r" using assms t by (auto simp: distinct_map dest: inj_onD)
    then show False using t assms by simp
  qed
  then have "ID r \<notin> ID ` set (tailArray org item d s)"
    using recalcArray_ids[of "startBalanceBefore org item d s" "liveTail org item d s"]
    by (metis tailArray_def set_map)
  then show ?thesis by (rule patch_notin)
qed

lemma map_patch_self:
  assumes "distinct (map ID xs)" and "map ID ys = map ID xs"
  shows "map (patch ys) xs = ys"
proof (rule nth_equalityI)
  show len: "length (map (patch ys) xs) = length ys"
    using assms(2) by (metis length_map)
  fix i assume "i < length (map (patch ys) xs)"
  then have i: "i < length xs" "i < length ys" using len by simp_all
  have "ID (ys ! i) = ID (xs ! i)" using assms(2) i by (metis nth_map)
  moreover have "distinct (map ID ys)" using assms by simp
  ultimately have "patch ys (xs ! i) = ys ! i"
    using i by (simp add: patch_in)
  then show "map (patch ys) xs ! i = ys ! i" using i by simp
qed

lemma liveTail_after:
  assumes "distinct (map ID (inventories s))"
  shows "liveTail org item d (RecalculateForward org item d s) = tailArray org item d s"
proof -
  let ?g = "patch (tailArray org item d s)"
  let ?P = "\<lambda>r. inPartition org item r \<and> d \<le> TxnDate r"
  let ?k = "\<lambda>r. (TxnDate r, CreatedAt r)"
  have k: "\<forall>r\<in>set (inventories s). keeps r (?g r)"
    using assms patch_tail_keeps by blast
  have P: "\<forall>r\<in>set (inventories s). ?P (?g r) = ?P r"
    using k by (auto simp: keeps_def inPartition_def)
  have K: "\<forall>r\<in>set (filter ?P (inventories s)). ?k (?g r) = ?k r"
    using k by (auto simp: keeps_def)
  have "liveTail org item d (RecalculateForward org item d s)
        = map ?g (liveTail org item d s)"
    by (simp add: RecalculateForward_patch[OF assms] liveTail_def orderAsc_def
        filter_map_cong[OF P] sort_key_map_cong[OF K])
  also have "\<dots> = tailArray org item d s"
    unfolding tailArray_def
    by (rule map_patch_self[OF liveTail_distinct[OF assms] recalcArray_ids])
  finally show ?thesis .
qed

lemma RecalculateForward_keeps:
  assumes "distinct (map ID (inventories s))"
  shows "list_all2 keeps (inventories s) (inventories (RecalculateForward org item d s))"
  using patch_tail_keeps[OF assms]
  by (simp add: RecalculateForward_patch[OF assms] list_all2_conv_all_nth)

lemma keeps_map_ID: "list_all2 keeps xs ys \<Longrightarrow> map ID ys = map ID xs"
  by (induction rule: list_all2_induct) (auto simp: keeps_def)

lemma RecalculateForward_others:
  "histories (RecalculateForward org item d s) = histories s"
  "clock (RecalculateForward org item d s) = clock s"
  "uuid_next (RecalculateForward org item d s) = uuid_next s"
  by (simp_all add: RecalculateForward_def fold_dbSave)

lemma startBalance_after:
  assumes "distinct (map ID (inventories s))"
  shows "startBalanceBefore org item d (RecalculateForward org item d s)
         = startBalanceBefore org item d s"
proof -
  let ?g = "patch (tailArray org item d s)"
  let ?P = "\<lambda>r. inPartition org item r \<and> TxnDate r < d"
  let ?k = "\<lambda>r. (TxnDate r, CreatedAt r)"
  have same: "?g r = r" if "r \<in> set (inventories s)" "?P r" for r
  proof -
    have "r \<notin> set (liveTail org item d s)"
      using that by (auto simp: liveTail_def orderAsc_set)
    then show ?thesis using assms that patch_outside_tail by blast
  qed
  have k: "\<forall>r\<in>set (inventories s). keeps r (?g r)"
    using assms patch_tail_keeps by blast
  have P: "\<forall>r\<in>set (inventories s). ?P (?g r) = ?P r"
    using k by (auto simp: keeps_def inPartition_def)
  have "filter ?P (map ?g (inventories s)) = map ?g (filter ?P (inventories s))"
    by (rule filter_map_cong[OF P])
  also have "\<dots> = filter ?P (inventories s)"
    by (rule map_idI) (use same in auto)
  finally show ?thesis
    by (simp add: startBalanceBefore_def RecalculateForward_patch[OF assms])
qed

lemma recalcLoop_array:
  "recalcLoop c (recalcArray c xs) = filter (\<lambda>r. Type r = InventoryTypeOpname) (recalcArray c xs)"
  by (induction xs arbitrary: c) (auto simp: Let_def)

lemma saveRow_member:
  "distinct (map ID rows) \<Longrightarrow> u \<in> set rows \<Longrightarrow> saveRow u rows = rows"
proof -
  assume d: "distinct (map ID rows)" and u: "u \<in> set rows"
  have "(if ID r = ID u then u else r) = r" if "r \<in> set rows" for r
    using d u that by (auto simp: distinct_map dest: inj_onD)
  then have "map (\<lambda>r. if ID r = ID u then u else r) rows = rows"
    by (simp add: map_idI)
  then show ?thesis using u by (simp add: saveRow_def)
qed

lemma fold_saveRow_members:
  "distinct (map ID rows) \<Longrightarrow> set us \<subseteq> set rows \<Longrightarrow> fold saveRow us rows = rows"
  by (induction us) (auto simp: saveRow_member)

lemma recalcArray_balanceLaw: "balanceLaw c (recalcArray c xs)"
  by (induction xs arbitrary: c) (auto simp: Let_def)

lemma RecalculateForward_distinct:
  assumes "distinct (map ID (inventories s))"
  shows "distinct (map ID (inventories (RecalculateForward org item d s)))"
  using keeps_map_ID[OF RecalculateForward_keeps[OF assms]] assms by simp

lemma RecalculateForward_balanceLaw:
  assumes "distinct (map ID (inventories s))"
  shows "balanceLaw (startBalanceBefore org item d (RecalculateForward org item d s))
           (liveTail org item d (RecalculateForward org item d s))"
  by (simp add: liveTail_after[OF assms] startBalance_after[OF assms] tailArray_def
      recalcArray_balanceLaw)

lemma createHistory_frame:
  "inventories (createHistory e a c r s) = inventories s"
  "uuid_next (createHistory e a c r s) = Suc (uuid_next s)"
  "clock (createHistory e a c r s) = Suc (clock s)"
  by (simp_all add: createHistory_def time_Now_def uuid_New_def dbCreateHistory_def Let_def)

lemma dbFirst_Some:
  "dbFirst inventoryID s = Some e \<Longrightarrow>
   e \<in> set (inventories s) \<and> ID e = inventoryID \<and> DeletedAt e = None"
  by (auto simp: dbFirst_def find_Some_iff)

lemma saveRow_ids: "ID u \<in> ID ` set rows \<Longrightarrow> map ID (saveRow u rows) = map ID rows"
  by (simp add: saveRow_present comp_def)

lemma list_all2_keeps_origin:
  "list_all2 keeps xs ys \<Longrightarrow> y \<in> set ys \<Longrightarrow> \<exists>x\<in>set xs. keeps x y"
  by (induction rule: list_all2_induct) auto

lemma list_all2_keeps_filter:
  assumes "list_all2 keeps xs ys" and "\<And>x y. keeps x y \<Longrightarrow> P x = P y"
  shows "list_all2 keeps (filter P xs) (filter P ys)"
  using assms(1)
proof (induction rule: list_all2_induct)
  case Nil
  then show ?case by simp
next
  case (Cons x xs y ys)
  then show ?case using assms(2)[of x y] by auto
qed

lemma DeleteTransaction_found:
  assumes "dbFirst inventoryID s = Some e"
  shows "DeleteTransaction inventoryID deletedBy reason s =
     (Inr (),
      RecalculateForward (OrganizationID e) (ItemID e) (TxnDate e)
        (dbSave (e\<lparr>DeletedBy := Some deletedBy, DeletedAt := Some (Suc (clock s))\<rparr>)
           (snd (time_Now (createHistory e ''DELETE_BEFORE'' deletedBy reason s)))))"
  using assms
  by (simp add: DeleteTransaction_def Transaction_def Let_def split_def time_Now_def
      createHistory_frame)

lemma UpdateTransaction_found:
  assumes "dbFirst (up_InventoryID req) s = Some old"
  shows "\<exists>tx new d.
     UpdateTransaction req s
       = (Inr (), RecalculateForward (OrganizationID old) (ItemID old) d tx)
     \<and> inventories tx
         = saveRow (old\<lparr>DeletedBy := Some (up_ChangedBy req), DeletedAt := Some (Suc (clock s))\<rparr>)
             (inventories s) @ [new]
     \<and> ID new = Suc (uuid_next s) \<and> DeletedAt new = None \<and> TxnDate new = up_TxnDate req
     \<and> OrganizationID new = OrganizationID old \<and> ItemID new = ItemID old
     \<and> Type new = Type old \<and> RefID new = RefID old"
proof (cases "Type old = InventoryTypeOpname")
  case True
  show ?thesis
    using assms True
    apply (simp add: UpdateTransaction_def handleOpnameUpdate_def Transaction_def Let_def split_def
        time_Now_def uuid_New_def createHistory_frame dbSave_def dbCreate_def newInventory_def)
    apply (rule exI, rule conjI, rule exI, rule refl)
    apply (simp add: createHistory_frame)
    done
next
  case False
  show ?thesis
    using assms False
    apply (simp add: UpdateTransaction_def Transaction_def Let_def split_def
        time_Now_def uuid_New_def createHistory_frame dbSave_def dbCreate_def newInventory_def
        split del: if_split)
    apply (rule exI, rule conjI, rule exI, rule refl)
    apply (simp add: createHistory_frame)
    done
qed

lemma list_all2_keeps_snoc:
  assumes "list_all2 keeps (xs @ [n]) ys"
  shows "\<exists>us y. ys = us @ [y] \<and> list_all2 keeps xs us \<and> keeps n y"
proof -
  obtain us vs where *: "ys = us @ vs" "list_all2 keeps xs us" "list_all2 keeps [n] vs"
    using assms by (auto simp: list_all2_append1)
  then obtain y where "vs = [y]" "keeps n y"
    by (auto simp: list_all2_Cons1)
  with * show ?thesis by blast
qed

lemma CreateMutation_committed:
  assumes "\<not> GetBalanceAt (mu_FromOrganizationID req) (mu_ItemID req) (mu_TxnDate req) s
             <s mu_Quantity req"
  shows "\<exists>tx a b.
     CreateMutation req s
       = (Inr (), RecalculateForward (mu_ToOrganizationID req) (mu_ItemID req) (mu_TxnDate req)
                    (RecalculateForward (mu_FromOrganizationID req) (mu_ItemID req)
                       (mu_TxnDate req) tx))
     \<and> inventories tx = inventories s @ [a, b]
     \<and> ID a = Suc (uuid_next s) \<and> ID b = Suc (Suc (uuid_next s))
     \<and> DeletedAt a = None \<and> DeletedAt b = None
     \<and> RefID a = Some (uuid_next s) \<and> RefID b = Some (uuid_next s)
     \<and> Type a = InventoryTypeMutation \<and> Type b = InventoryTypeMutation
     \<and> OrganizationID a = mu_FromOrganizationID req \<and> OrganizationID b = mu_ToOrganizationID req
     \<and> ItemID a = mu_ItemID req \<and> ItemID b = mu_ItemID req
     \<and> Amount a = - mu_Quantity req \<and> Amount b = mu_Quantity req
     \<and> FromOrganizationID a = Some (mu_FromOrganizationID req)
     \<and> ToOrganizationID a = Some (mu_ToOrganizationID req)
     \<and> FromOrganizationID b = Some (mu_FromOrganizationID req)
     \<and> ToOrganizationID b = Some (mu_ToOrganizationID req)"
  using assms
  apply (simp add: CreateMutation_def Transaction_def Let_def split_def
      time_Now_def uuid_New_def createHistory_frame dbCreate_def newInventory_def
      split del: if_split)
  apply (rule exI, rule conjI, rule refl)
  apply (simp add: createHistory_frame)
  done

lemma filter_map_tombstone:
  assumes "\<forall>r \<in> set rows. ID r \<noteq> i \<longrightarrow> h r = r"
    and "\<forall>r \<in> set rows. ID r = i \<longrightarrow> \<not> Q (h r)"
  shows "filter Q (map h rows) = filter (\<lambda>r. ID r \<noteq> i) (filter Q rows)"
  using assms by (induction rows) auto

section \<open>Evaluating the service on the example ledgers\<close>

lemmas eval_defs = Transaction_def GetBalanceAt_def GetCurrentBalance_def
  firstBalance_def orderDesc_def orderAsc_def Let_def word_sless_alt
  uuid_New_def time_Now_def dbCreate_def createHistory_def dbCreateHistory_def
  RecalculateForward_def batchUpdates_def liveTail_def startBalanceBefore_def inPartition_def
  dbSave_def saveRow_def newInventory_def toSnapshotItem_def
  InventoryTypeMutation_def InventoryTypeOpname_def InventoryTypeStokAwal_def
  isValidTransactionType_def checkFirstStockExists_def dbFirst_def getBalanceBeforeDate_def
  CreateTransaction_def CreateMutation_def CreateOpname_def UpdateTransaction_def
  handleOpnameUpdate_def DeleteTransaction_def balanceConsistent_def
  createReq_def opnameReq_def mutationReq_def updateReq_def emptyWorld_def

lemmas eval_congs = let_weak_cong prod.case_cong_weak option.case_cong_weak
  sum.case_cong_weak list.case_cong_weak

lemma countLedger_rows:
  "map (\<lambda>r. (ID r, TxnDate r, Amount r, Balance r, Type r, PhysicalQty r, DeletedAt r))
     (inventories countLedger)
   = [(1, 1, 100, 100, ''penerimaan'', None, None), (3, 2, 20, 120, ''opname'', Some 120, None)]"
  by (simp add: countLedger_def eval_defs cong: eval_congs)

lemma countLedger_distinct: "distinct (map ID (inventories countLedger))"
  using countLedger_rows [THEN arg_cong, of "map fst"] by (simp add: comp_def)

section \<open>Balance consistency (C1)\<close>

text \<open>
  C1. After every committed operation the live entries of every partition, in canonical
  order, satisfy the balance law. The update of a count entry does not keep it: on the
  ledger \<open>+100\<close> (day 1), count 120 (day 2), \<open>-10\<close> (day 3), whose stored balances are
  consistent, moving the count to day 4 commits and leaves the issue of day 3 with its
  old balance 110, although the entry before it now holds 100.
  \<open>handleOpnameUpdate\<close> recalculates from the new date only, where the update of any
  other entry recalculates from the earlier of the old and the new date.
\<close>

theorem opname_update_breaks_balance:
  "balanceConsistent 101 1 countIssueLedger
   \<and> fst (UpdateTransaction (updateReq 3 4 5) countIssueLedger) = Inr ()
   \<and> \<not> balanceConsistent 101 1 (snd (UpdateTransaction (updateReq 3 4 5) countIssueLedger))"
  by (simp add: countIssueLedger_def countLedger_def eval_defs cong: eval_congs)

section \<open>A second recalculation (C2)\<close>

text \<open>
  C2, as the code has it. On a table with unique primary keys, a second
  \<open>RecalculateForward\<close> for the same partition and pivot saves exactly the count
  entries of the tail, each with the values it already has, and no other entry; the
  store after it is the store before it (up to the \<open>updated_at\<close> stamp of the rows saved
  again). It saves nothing exactly when the tail holds no count.
\<close>

theorem RecalculateForward_second_call:
  assumes "distinct (map ID (inventories s))"
  shows "batchUpdates org item d (RecalculateForward org item d s)
           = filter (\<lambda>r. Type r = InventoryTypeOpname)
               (liveTail org item d (RecalculateForward org item d s))
         \<and> RecalculateForward org item d (RecalculateForward org item d s)
           = RecalculateForward org item d s"
proof -
  let ?s1 = "RecalculateForward org item d s"
  have d1: "distinct (map ID (inventories ?s1))"
    using assms by (rule RecalculateForward_distinct)
  have b: "batchUpdates org item d ?s1
           = filter (\<lambda>r. Type r = InventoryTypeOpname) (liveTail org item d ?s1)"
    by (simp add: batchUpdates_def liveTail_after[OF assms] startBalance_after[OF assms]
        tailArray_def recalcLoop_array)
  have "set (batchUpdates org item d ?s1) \<subseteq> set (inventories ?s1)"
    using liveTail_subset[of org item d ?s1] by (auto simp: b)
  then have "fold saveRow (batchUpdates org item d ?s1) (inventories ?s1) = inventories ?s1"
    using d1 by (rule fold_saveRow_members[rotated])
  then have "RecalculateForward org item d ?s1 = ?s1"
    by (simp add: RecalculateForward_def[of org item d ?s1] fold_dbSave)
  with b show ?thesis by simp
qed

text \<open>The theorem on the ledger with a count, recalculated from the day of the count.\<close>

theorem RecalculateForward_second_call_witness:
  "distinct (map ID (inventories countLedger))
   \<and> batchUpdates 101 1 2 (RecalculateForward 101 1 2 countLedger)
       = filter (\<lambda>r. Type r = InventoryTypeOpname)
           (liveTail 101 1 2 (RecalculateForward 101 1 2 countLedger))
   \<and> RecalculateForward 101 1 2 (RecalculateForward 101 1 2 countLedger)
       = RecalculateForward 101 1 2 countLedger"
  using countLedger_distinct RecalculateForward_second_call [OF countLedger_distinct, of 101 1 2]
  by blast

text \<open>
  C2 as stated fails: on that ledger the second call is not write-free, it saves the
  count entry (entry 3) again.
\<close>

theorem RecalculateForward_rewrites_count:
  "map ID (batchUpdates 101 1 2 (RecalculateForward 101 1 2 countLedger)) = [3]
   \<and> batchUpdates 101 1 2 (RecalculateForward 101 1 2 countLedger) \<noteq> []"
  by (simp add: countLedger_def eval_defs cong: eval_congs)

section \<open>History records of an update (C7)\<close>

text \<open>
  C7. Every committed update writes one \<open>UPDATE_BEFORE\<close> and one \<open>UPDATE_AFTER\<close>
  record. The update of a count entry does not: \<open>UpdateTransaction\<close> returns through
  \<open>handleOpnameUpdate\<close>, which writes no history, so the committed update of the count
  (entry 3) adds the \<open>UPDATE_BEFORE\<close> record alone.
\<close>

theorem opname_update_history:
  "fst (UpdateTransaction (updateReq 3 2 5) countLedger) = Inr ()
   \<and> map Action (histories countLedger) = [''CREATE'', ''OPNAME'']
   \<and> map Action (histories (snd (UpdateTransaction (updateReq 3 2 5) countLedger)))
       = [''CREATE'', ''OPNAME'', ''UPDATE_BEFORE'']"
  by (simp add: countLedger_def eval_defs cong: eval_congs)

section \<open>Guards of create (C3)\<close>

text \<open>
  C3. A create request fails with a validation error (\<open>amount cannot be zero\<close>, the two
  sign messages, \<open>invalid transaction type\<close>) when the amount is zero, when the kind is
  not one of first stock, receipt, issue, when a receipt is negative or an issue
  positive; it fails with the conflict \<open>stok awal already exists\<close> when it is a first
  stock and the partition already has a live one. The guards are checked in this order,
  so the conflict is the answer to a request that passes the validation guards. A failed
  request leaves the store as it was: no entry, no history record. A request that meets
  none of the conditions succeeds.
\<close>

theorem CreateTransaction_guards:
  "((ct_Amount req = 0
      \<or> ct_Type req \<notin> {''stok_awal'', ''penerimaan'', ''pemakaian''}
      \<or> (ct_Type req = ''penerimaan'' \<and> ct_Amount req <s 0)
      \<or> (ct_Type req = ''pemakaian'' \<and> 0 <s ct_Amount req))
     \<longrightarrow> (\<exists>e \<in> {ErrAmountZero, ErrInvalidType, ErrPenerimaanNegative, ErrPemakaianPositive}.
            CreateTransaction req s = (Inl e, s)))
   \<and> (ct_Amount req \<noteq> 0 \<and> ct_Type req = ''stok_awal''
        \<and> (\<exists>r \<in> set (inventories s).
              OrganizationID r = ct_OrganizationID req \<and> ItemID r = ct_ItemID req
              \<and> DeletedAt r = None \<and> Type r = InventoryTypeStokAwal)
     \<longrightarrow> CreateTransaction req s = (Inl ErrStokAwalExists, s))
   \<and> (ct_Amount req \<noteq> 0
        \<and> ct_Type req \<in> {''stok_awal'', ''penerimaan'', ''pemakaian''}
        \<and> \<not> (ct_Type req = ''penerimaan'' \<and> ct_Amount req <s 0)
        \<and> \<not> (ct_Type req = ''pemakaian'' \<and> 0 <s ct_Amount req)
        \<and> \<not> (ct_Type req = ''stok_awal''
              \<and> (\<exists>r \<in> set (inventories s).
                    OrganizationID r = ct_OrganizationID req \<and> ItemID r = ct_ItemID req
                    \<and> DeletedAt r = None \<and> Type r = InventoryTypeStokAwal))
     \<longrightarrow> (\<exists>entry s'. CreateTransaction req s = (Inr entry, s')))"
proof -
  have ex: "checkFirstStockExists (ct_OrganizationID req) (ct_ItemID req) s
            \<longleftrightarrow> (\<exists>r \<in> set (inventories s).
                  OrganizationID r = ct_OrganizationID req \<and> ItemID r = ct_ItemID req
                  \<and> DeletedAt r = None \<and> Type r = InventoryTypeStokAwal)"
    by (auto simp: checkFirstStockExists_def inPartition_def filter_empty_conv)
  show ?thesis
    unfolding ex [symmetric]
    by (auto simp: CreateTransaction_def Transaction_def isValidTransactionType_def
        Let_def split_def)
qed

text \<open>
  The theorem on a zero amount, an unknown kind, a negative receipt, a positive issue, a
  second first stock, and a plain receipt into the empty store.
\<close>

theorem CreateTransaction_guards_witness:
  "(ct_Amount (createReq 101 1 1 0 ''penerimaan'') = 0
    \<and> (\<exists>e \<in> {ErrAmountZero, ErrInvalidType, ErrPenerimaanNegative, ErrPemakaianPositive}.
          CreateTransaction (createReq 101 1 1 0 ''penerimaan'') emptyWorld = (Inl e, emptyWorld)))
   \<and> (ct_Type (createReq 101 1 1 5 ''mutation'') \<notin> {''stok_awal'', ''penerimaan'', ''pemakaian''}
    \<and> (\<exists>e \<in> {ErrAmountZero, ErrInvalidType, ErrPenerimaanNegative, ErrPemakaianPositive}.
          CreateTransaction (createReq 101 1 1 5 ''mutation'') emptyWorld = (Inl e, emptyWorld)))
   \<and> (ct_Amount (createReq 101 1 1 (- 100) ''penerimaan'') <s 0
    \<and> (\<exists>e \<in> {ErrAmountZero, ErrInvalidType, ErrPenerimaanNegative, ErrPemakaianPositive}.
          CreateTransaction (createReq 101 1 1 (- 100) ''penerimaan'') emptyWorld
            = (Inl e, emptyWorld)))
   \<and> (0 <s ct_Amount (createReq 101 1 1 30 ''pemakaian'')
    \<and> (\<exists>e \<in> {ErrAmountZero, ErrInvalidType, ErrPenerimaanNegative, ErrPemakaianPositive}.
          CreateTransaction (createReq 101 1 1 30 ''pemakaian'') emptyWorld = (Inl e, emptyWorld)))
   \<and> ((\<exists>r \<in> set (inventories firstStockLedger).
          OrganizationID r = 103 \<and> ItemID r = 1 \<and> DeletedAt r = None
          \<and> Type r = InventoryTypeStokAwal)
    \<and> CreateTransaction (createReq 103 1 2 20 ''stok_awal'') firstStockLedger
        = (Inl ErrStokAwalExists, firstStockLedger))
   \<and> (\<exists>entry s'. CreateTransaction (createReq 101 1 1 100 ''penerimaan'') emptyWorld
                      = (Inr entry, s'))"
proof -
  have h1: "ct_Amount (createReq 101 1 1 0 ''penerimaan'') = 0"
    by (simp add: createReq_def)
  have h2: "ct_Type (createReq 101 1 1 5 ''mutation'') \<notin> {''stok_awal'', ''penerimaan'', ''pemakaian''}"
    by (simp add: createReq_def)
  have h3: "ct_Type (createReq 101 1 1 (- 100) ''penerimaan'') = ''penerimaan''
            \<and> ct_Amount (createReq 101 1 1 (- 100) ''penerimaan'') <s 0"
    by (simp add: createReq_def word_sless_alt)
  have h4: "ct_Type (createReq 101 1 1 30 ''pemakaian'') = ''pemakaian''
            \<and> 0 <s ct_Amount (createReq 101 1 1 30 ''pemakaian'')"
    by (simp add: createReq_def word_sless_alt)
  have h5: "ct_Amount (createReq 103 1 2 20 ''stok_awal'') \<noteq> 0
            \<and> ct_Type (createReq 103 1 2 20 ''stok_awal'') = ''stok_awal''
            \<and> (\<exists>r \<in> set (inventories firstStockLedger).
                  OrganizationID r = ct_OrganizationID (createReq 103 1 2 20 ''stok_awal'')
                  \<and> ItemID r = ct_ItemID (createReq 103 1 2 20 ''stok_awal'')
                  \<and> DeletedAt r = None \<and> Type r = InventoryTypeStokAwal)"
    by (simp add: firstStockLedger_def eval_defs cong: eval_congs)
  have h6: "ct_Amount (createReq 101 1 1 100 ''penerimaan'') \<noteq> 0
        \<and> ct_Type (createReq 101 1 1 100 ''penerimaan'') \<in> {''stok_awal'', ''penerimaan'', ''pemakaian''}
        \<and> \<not> (ct_Type (createReq 101 1 1 100 ''penerimaan'') = ''penerimaan''
               \<and> ct_Amount (createReq 101 1 1 100 ''penerimaan'') <s 0)
        \<and> \<not> (ct_Type (createReq 101 1 1 100 ''penerimaan'') = ''pemakaian''
               \<and> 0 <s ct_Amount (createReq 101 1 1 100 ''penerimaan''))
        \<and> \<not> (ct_Type (createReq 101 1 1 100 ''penerimaan'') = ''stok_awal''
              \<and> (\<exists>r \<in> set (inventories emptyWorld).
                    OrganizationID r = ct_OrganizationID (createReq 101 1 1 100 ''penerimaan'')
                    \<and> ItemID r = ct_ItemID (createReq 101 1 1 100 ''penerimaan'')
                    \<and> DeletedAt r = None \<and> Type r = InventoryTypeStokAwal))"
    by (simp add: createReq_def word_sless_alt)
  have c5: "ct_OrganizationID (createReq 103 1 2 20 ''stok_awal'') = 103"
           "ct_ItemID (createReq 103 1 2 20 ''stok_awal'') = 1"
    by (simp_all add: createReq_def)
  note t1 = CreateTransaction_guards [of "createReq 101 1 1 0 ''penerimaan''" emptyWorld]
  note t2 = CreateTransaction_guards [of "createReq 101 1 1 5 ''mutation''" emptyWorld]
  note t3 = CreateTransaction_guards [of "createReq 101 1 1 (- 100) ''penerimaan''" emptyWorld]
  note t4 = CreateTransaction_guards [of "createReq 101 1 1 30 ''pemakaian''" emptyWorld]
  note t5 = CreateTransaction_guards [of "createReq 103 1 2 20 ''stok_awal''" firstStockLedger]
  note t6 = CreateTransaction_guards [of "createReq 101 1 1 100 ''penerimaan''" emptyWorld]
  have r1: "\<exists>e \<in> {ErrAmountZero, ErrInvalidType, ErrPenerimaanNegative, ErrPemakaianPositive}.
          CreateTransaction (createReq 101 1 1 0 ''penerimaan'') emptyWorld = (Inl e, emptyWorld)"
    using t1 h1 by blast
  have r2: "\<exists>e \<in> {ErrAmountZero, ErrInvalidType, ErrPenerimaanNegative, ErrPemakaianPositive}.
          CreateTransaction (createReq 101 1 1 5 ''mutation'') emptyWorld = (Inl e, emptyWorld)"
    using t2 h2 by blast
  have r3: "\<exists>e \<in> {ErrAmountZero, ErrInvalidType, ErrPenerimaanNegative, ErrPemakaianPositive}.
          CreateTransaction (createReq 101 1 1 (- 100) ''penerimaan'') emptyWorld
            = (Inl e, emptyWorld)"
    using t3 h3 by blast
  have r4: "\<exists>e \<in> {ErrAmountZero, ErrInvalidType, ErrPenerimaanNegative, ErrPemakaianPositive}.
          CreateTransaction (createReq 101 1 1 30 ''pemakaian'') emptyWorld = (Inl e, emptyWorld)"
    using t4 h4 by blast
  have r5: "CreateTransaction (createReq 103 1 2 20 ''stok_awal'') firstStockLedger
        = (Inl ErrStokAwalExists, firstStockLedger)"
    using t5 h5 by blast
  have r6: "\<exists>entry s'. CreateTransaction (createReq 101 1 1 100 ''penerimaan'') emptyWorld
                      = (Inr entry, s')"
    using t6 h6 by blast
  show ?thesis
    using h1 h2 h3 h4 h5 r1 r2 r3 r4 r5 r6 unfolding c5 by blast
qed

section \<open>Mutation without a quantity guard in the service (C4)\<close>

text \<open>
  C4, as the code has it. A mutation request with a quantity below one is rejected at the
  HTTP boundary: the binding of the request body (\<open>min=1\<close>) fails, the handler answers
  400 and the service is not called, so nothing is written whatever the source balance
  is. The service's \<open>CreateMutation\<close> has no quantity guard of its own: the only error it
  returns is insufficient stock, when the source balance at the date is below the
  quantity.
\<close>

theorem HandlerCreateMutation_rejects:
  "(hm_Quantity hreq <s 1
      \<longrightarrow> HandlerCreateMutation parseRFC3339 parseLocal hreq s = (400, s))
   \<and> fst (CreateMutation req s)
       = (if GetBalanceAt (mu_FromOrganizationID req) (mu_ItemID req) (mu_TxnDate req) s
               <s mu_Quantity req
          then Inl ErrInsufficientStock else Inr ())"
  by (simp add: HandlerCreateMutation_def bindMutationRequest_def CreateMutation_def
      Transaction_def Let_def split_def)

text \<open>The theorem on a request body with quantity 0.\<close>

theorem HandlerCreateMutation_rejects_witness:
  "hm_Quantity (handlerMutationReq 0) <s 1
   \<and> HandlerCreateMutation (\<lambda>t. Some 1) (\<lambda>t. None) (handlerMutationReq 0) emptyWorld
       = (400, emptyWorld)"
proof -
  have h: "hm_Quantity (handlerMutationReq 0) <s 1"
    by (simp add: handlerMutationReq_def word_sless_alt)
  show ?thesis
    using h HandlerCreateMutation_rejects
      [of "handlerMutationReq 0" "\<lambda>t. Some 1" "\<lambda>t. None" emptyWorld]
    by blast
qed

text \<open>
  C4 as stated fails: called with quantity 0 on the empty store, the service's
  \<open>CreateMutation\<close> commits, and writes two entries and two history records.
\<close>

theorem CreateMutation_zero_quantity:
  "mu_Quantity (mutationReq 101 102 1 0 1) <s 1
   \<and> fst (CreateMutation (mutationReq 101 102 1 0 1) emptyWorld) = Inr ()
   \<and> length (inventories (snd (CreateMutation (mutationReq 101 102 1 0 1) emptyWorld))) = 2
   \<and> length (histories (snd (CreateMutation (mutationReq 101 102 1 0 1) emptyWorld))) = 2"
  by (simp add: eval_defs cong: eval_congs)

section \<open>Insufficient stock (C5)\<close>

text \<open>
  C5. A mutation whose source partition holds less than the quantity at the transaction
  date fails with insufficient stock, and the store after it is the store before it:
  both partitions and the history are unchanged.
\<close>

theorem CreateMutation_insufficient_stock:
  "GetBalanceAt (mu_FromOrganizationID req) (mu_ItemID req) (mu_TxnDate req) s <s mu_Quantity req
   \<Longrightarrow> CreateMutation req s = (Inl ErrInsufficientStock, s)"
  by (simp add: CreateMutation_def Transaction_def Let_def)

text \<open>
  The theorem on the ledger after the transfer of 150: the source holds 350, the
  destination 150, and a transfer of 1000 on day 3 is refused.
\<close>

theorem CreateMutation_insufficient_stock_witness:
  "GetBalanceAt 101 1 3 transferLedger = 350
   \<and> GetBalanceAt 102 1 3 transferLedger = 150
   \<and> CreateMutation (mutationReq 101 102 1 1000 3) transferLedger
       = (Inl ErrInsufficientStock, transferLedger)"
proof -
  have b: "GetBalanceAt 101 1 3 transferLedger = 350 \<and> GetBalanceAt 102 1 3 transferLedger = 150"
    by (simp add: transferLedger_def receiptLedger_def eval_defs cong: eval_congs)
  then have h: "GetBalanceAt (mu_FromOrganizationID (mutationReq 101 102 1 1000 3))
             (mu_ItemID (mutationReq 101 102 1 1000 3))
             (mu_TxnDate (mutationReq 101 102 1 1000 3)) transferLedger
           <s mu_Quantity (mutationReq 101 102 1 1000 3)"
    by (simp add: mutationReq_def word_sless_alt)
  show ?thesis
    using b CreateMutation_insufficient_stock [OF h] by blast
qed

section \<open>Delete and the entries before it (C8)\<close>

text \<open>
  C8. Deleting a live entry of a table with unique primary keys commits, marks the entry
  as deleted, and recalculates from the entry's date: no row is added or removed, every
  row dated strictly before the deleted entry is left exactly as it was (its stored
  balance with it). Every row but the deleted one stays live or deleted as it was, in
  its partition, at its date, of its kind, and keeps its amount unless it is a count.
  The later entries are recomputed: the balance before the date is the one before the
  delete, and the live tail of the partition from that date is the old tail without the
  deleted entry, replayed by the recalculation loop from that balance, so it satisfies
  the balance law again. In particular, for
  \<open>+100\<close>, \<open>-30\<close>, \<open>-20\<close> on three consecutive days (stored balances 100, 70, 50),
  deleting the middle entry gives current balance 80, stored balance 80 on the third entry
  and leaves the first at 100.
\<close>

theorem DeleteTransaction_frame:
  assumes "distinct (map ID (inventories s))" and "dbFirst inventoryID s = Some e"
  shows "(\<exists>s'. DeleteTransaction inventoryID deletedBy reason s = (Inr (), s')
          \<and> map ID (inventories s') = map ID (inventories s)
          \<and> (\<forall>r' \<in> set (inventories s'). ID r' = inventoryID \<longrightarrow> DeletedAt r' \<noteq> None)
          \<and> (\<forall>i < length (inventories s).
                TxnDate (inventories s ! i) < TxnDate e
                \<longrightarrow> inventories s' ! i = inventories s ! i)
          \<and> balanceLaw (startBalanceBefore (OrganizationID e) (ItemID e) (TxnDate e) s')
                (liveTail (OrganizationID e) (ItemID e) (TxnDate e) s')
          \<and> (\<forall>i < length (inventories s).
                ID (inventories s ! i) \<noteq> inventoryID
                \<longrightarrow> DeletedAt (inventories s' ! i) = DeletedAt (inventories s ! i)
                    \<and> OrganizationID (inventories s' ! i) = OrganizationID (inventories s ! i)
                    \<and> ItemID (inventories s' ! i) = ItemID (inventories s ! i)
                    \<and> TxnDate (inventories s' ! i) = TxnDate (inventories s ! i)
                    \<and> CreatedAt (inventories s' ! i) = CreatedAt (inventories s ! i)
                    \<and> Type (inventories s' ! i) = Type (inventories s ! i)
                    \<and> (Type (inventories s ! i) \<noteq> InventoryTypeOpname
                         \<longrightarrow> Amount (inventories s' ! i) = Amount (inventories s ! i)))
          \<and> startBalanceBefore (OrganizationID e) (ItemID e) (TxnDate e) s'
              = startBalanceBefore (OrganizationID e) (ItemID e) (TxnDate e) s
          \<and> liveTail (OrganizationID e) (ItemID e) (TxnDate e) s'
              = recalcArray (startBalanceBefore (OrganizationID e) (ItemID e) (TxnDate e) s)
                  (filter (\<lambda>r. ID r \<noteq> inventoryID)
                     (liveTail (OrganizationID e) (ItemID e) (TxnDate e) s)))
         \<and> map (\<lambda>r. (ID r, TxnDate r, Amount r, Balance r, DeletedAt r)) (inventories threeDayLedger)
             = [(1, 1, 100, 100, None), (3, 2, - 30, 70, None), (5, 3, - 20, 50, None)]
         \<and> fst (DeleteTransaction 3 ''admin'' None threeDayLedger) = Inr ()
         \<and> GetCurrentBalance 101 1 (snd (DeleteTransaction 3 ''admin'' None threeDayLedger)) = 80
         \<and> map (\<lambda>r. (ID r, Balance r, DeletedAt r))
              (inventories (snd (DeleteTransaction 3 ''admin'' None threeDayLedger)))
             = [(1, 100, None), (3, 70, Some 8), (5, 80, None)]"
proof -
  let ?org = "OrganizationID e" and ?item = "ItemID e" and ?d = "TxnDate e"
  let ?e' = "e\<lparr>DeletedBy := Some deletedBy, DeletedAt := Some (Suc (clock s))\<rparr>"
  let ?h = "\<lambda>r. if ID r = ID ?e' then ?e' else r"
  define tx where
    "tx = dbSave ?e' (snd (time_Now (createHistory e ''DELETE_BEFORE'' deletedBy reason s)))"
  define s' where "s' = RecalculateForward ?org ?item ?d tx"
  have e: "e \<in> set (inventories s)" "ID e = inventoryID"
    using dbFirst_Some[OF assms(2)] by simp_all
  have inj: "r = e" if "r \<in> set (inventories s)" "ID r = inventoryID" for r
    using that e assms(1) by (auto simp: distinct_map dest: inj_onD)
  have tx_rows: "inventories tx = map ?h (inventories s)"
    using e(1) by (simp add: tx_def dbSave_def time_Now_def createHistory_frame saveRow_present)
  have tx_ids: "map ID (inventories tx) = map ID (inventories s)"
    by (simp add: tx_rows comp_def)
  have tx_distinct: "distinct (map ID (inventories tx))"
    using assms(1) tx_ids by simp
  have res: "DeleteTransaction inventoryID deletedBy reason s = (Inr (), s')"
    by (simp add: DeleteTransaction_found[OF assms(2)] s'_def tx_def)
  have keeps: "list_all2 keeps (inventories tx) (inventories s')"
    unfolding s'_def by (rule RecalculateForward_keeps[OF tx_distinct])
  have ids: "map ID (inventories s') = map ID (inventories s)"
    using keeps_map_ID[OF keeps] tx_ids by simp
  have tomb: "DeletedAt r' \<noteq> None"
    if mem: "r' \<in> set (inventories s')" and id: "ID r' = inventoryID" for r'
  proof -
    obtain x where x: "x \<in> set (inventories tx)" "keeps x r'"
      using list_all2_keeps_origin[OF keeps mem] by blast
    then obtain r where r: "r \<in> set (inventories s)" "x = ?h r"
      by (auto simp: tx_rows)
    have "ID x = inventoryID" using x(2) id by (simp add: keeps_def)
    then have "ID r = inventoryID" using r(2) e(2) by (simp split: if_splits)
    then have "x = ?e'" using r(2) e(2) by simp
    then show ?thesis using x(2) by (simp add: keeps_def)
  qed
  have frame: "inventories s' ! i = inventories s ! i"
    if "i < length (inventories s)" "TxnDate (inventories s ! i) < ?d" for i
  proof -
    let ?r = "inventories s ! i"
    have mem: "?r \<in> set (inventories s)" using that(1) by simp
    have "ID ?r \<noteq> inventoryID" using inj[OF mem] that(2) by auto
    then have h: "?h ?r = ?r" using e(2) by simp
    have "?h ?r \<in> ?h ` set (inventories s)" using mem by (rule imageI)
    then have mem': "?r \<in> set (inventories tx)"
      unfolding tx_rows set_map h .
    have "?r \<notin> set (liveTail ?org ?item ?d tx)"
      using that(2) by (auto simp: liveTail_def orderAsc_set)
    then have "patch (tailArray ?org ?item ?d tx) ?r = ?r"
      using patch_outside_tail[OF tx_distinct mem'] by blast
    then show ?thesis
      using that(1) h by (simp add: s'_def RecalculateForward_patch[OF tx_distinct] tx_rows)
  qed
  have law: "balanceLaw (startBalanceBefore ?org ?item ?d s') (liveTail ?org ?item ?d s')"
    unfolding s'_def by (rule RecalculateForward_balanceLaw[OF tx_distinct])
  have others: "DeletedAt (inventories s' ! i) = DeletedAt (inventories s ! i)
        \<and> OrganizationID (inventories s' ! i) = OrganizationID (inventories s ! i)
        \<and> ItemID (inventories s' ! i) = ItemID (inventories s ! i)
        \<and> TxnDate (inventories s' ! i) = TxnDate (inventories s ! i)
        \<and> CreatedAt (inventories s' ! i) = CreatedAt (inventories s ! i)
        \<and> Type (inventories s' ! i) = Type (inventories s ! i)
        \<and> (Type (inventories s ! i) \<noteq> InventoryTypeOpname
             \<longrightarrow> Amount (inventories s' ! i) = Amount (inventories s ! i))"
    if len: "i < length (inventories s)" and other: "ID (inventories s ! i) \<noteq> inventoryID" for i
  proof -
    have "inventories tx ! i = inventories s ! i"
      using len other e(2) by (simp add: tx_rows)
    moreover have "i < length (inventories tx)"
      using len by (simp add: tx_rows)
    then have "keeps (inventories tx ! i) (inventories s' ! i)"
      by (rule list_all2_nthD[OF keeps])
    ultimately show ?thesis by (simp add: keeps_def)
  qed
  have not_target: "ID r \<noteq> inventoryID"
    if "r \<in> set (inventories s)" "TxnDate r < ?d" for r
    using inj[OF that(1)] that(2) by auto
  have h_other: "\<forall>r \<in> set (inventories s). ID r \<noteq> inventoryID \<longrightarrow> ?h r = r"
    using e(2) by simp
  have h_target: "\<forall>r \<in> set (inventories s). ID r = inventoryID \<longrightarrow> \<not> inPartition ?org ?item (?h r)"
    using e(2) by (simp add: inPartition_def)
  have start_tx: "startBalanceBefore ?org ?item ?d tx = startBalanceBefore ?org ?item ?d s"
  proof -
    let ?Q = "\<lambda>r. inPartition ?org ?item r \<and> TxnDate r < ?d"
    have "filter ?Q (map ?h (inventories s))
          = filter (\<lambda>r. ID r \<noteq> inventoryID) (filter ?Q (inventories s))"
      by (rule filter_map_tombstone) (use h_other h_target in auto)
    also have "\<dots> = filter ?Q (inventories s)"
      by (rule filter_id_conv [THEN iffD2]) (use not_target in auto)
    finally show ?thesis by (simp add: startBalanceBefore_def tx_rows)
  qed
  have start: "startBalanceBefore ?org ?item ?d s' = startBalanceBefore ?org ?item ?d s"
    unfolding s'_def by (simp add: startBalance_after[OF tx_distinct] start_tx)
  have tail_tx: "liveTail ?org ?item ?d tx
                 = filter (\<lambda>r. ID r \<noteq> inventoryID) (liveTail ?org ?item ?d s)"
  proof -
    let ?Q = "\<lambda>r. inPartition ?org ?item r \<and> ?d \<le> TxnDate r"
    have "filter ?Q (map ?h (inventories s))
          = filter (\<lambda>r. ID r \<noteq> inventoryID) (filter ?Q (inventories s))"
      by (rule filter_map_tombstone) (use h_other h_target in auto)
    then show ?thesis
      by (simp add: liveTail_def tx_rows orderAsc_def filter_sort)
  qed
  have tail: "liveTail ?org ?item ?d s'
              = recalcArray (startBalanceBefore ?org ?item ?d s)
                  (filter (\<lambda>r. ID r \<noteq> inventoryID) (liveTail ?org ?item ?d s))"
    unfolding s'_def by (simp add: liveTail_after[OF tx_distinct] tailArray_def start_tx tail_tx)
  have scen1: "map (\<lambda>r. (ID r, TxnDate r, Amount r, Balance r, DeletedAt r)) (inventories threeDayLedger)
             = [(1, 1, 100, 100, None), (3, 2, - 30, 70, None), (5, 3, - 20, 50, None)]"
    by (simp add: threeDayLedger_def eval_defs cong: eval_congs)
  have scen2: "fst (DeleteTransaction 3 ''admin'' None threeDayLedger) = Inr ()
         \<and> GetCurrentBalance 101 1 (snd (DeleteTransaction 3 ''admin'' None threeDayLedger)) = 80
         \<and> map (\<lambda>r. (ID r, Balance r, DeletedAt r))
              (inventories (snd (DeleteTransaction 3 ''admin'' None threeDayLedger)))
             = [(1, 100, None), (3, 70, Some 8), (5, 80, None)]"
    by (simp add: threeDayLedger_def eval_defs cong: eval_congs)
  have general: "\<exists>s'. DeleteTransaction inventoryID deletedBy reason s = (Inr (), s')
          \<and> map ID (inventories s') = map ID (inventories s)
          \<and> (\<forall>r' \<in> set (inventories s'). ID r' = inventoryID \<longrightarrow> DeletedAt r' \<noteq> None)
          \<and> (\<forall>i < length (inventories s).
                TxnDate (inventories s ! i) < TxnDate e
                \<longrightarrow> inventories s' ! i = inventories s ! i)
          \<and> balanceLaw (startBalanceBefore (OrganizationID e) (ItemID e) (TxnDate e) s')
                (liveTail (OrganizationID e) (ItemID e) (TxnDate e) s')
          \<and> (\<forall>i < length (inventories s).
                ID (inventories s ! i) \<noteq> inventoryID
                \<longrightarrow> DeletedAt (inventories s' ! i) = DeletedAt (inventories s ! i)
                    \<and> OrganizationID (inventories s' ! i) = OrganizationID (inventories s ! i)
                    \<and> ItemID (inventories s' ! i) = ItemID (inventories s ! i)
                    \<and> TxnDate (inventories s' ! i) = TxnDate (inventories s ! i)
                    \<and> CreatedAt (inventories s' ! i) = CreatedAt (inventories s ! i)
                    \<and> Type (inventories s' ! i) = Type (inventories s ! i)
                    \<and> (Type (inventories s ! i) \<noteq> InventoryTypeOpname
                         \<longrightarrow> Amount (inventories s' ! i) = Amount (inventories s ! i)))
          \<and> startBalanceBefore (OrganizationID e) (ItemID e) (TxnDate e) s'
              = startBalanceBefore (OrganizationID e) (ItemID e) (TxnDate e) s
          \<and> liveTail (OrganizationID e) (ItemID e) (TxnDate e) s'
              = recalcArray (startBalanceBefore (OrganizationID e) (ItemID e) (TxnDate e) s)
                  (filter (\<lambda>r. ID r \<noteq> inventoryID)
                     (liveTail (OrganizationID e) (ItemID e) (TxnDate e) s))"
    by (rule exI[of _ s'])
       (intro conjI ballI allI impI res ids law start tail; simp add: tomb frame others)
  show ?thesis
    by (intro conjI general scen1) (simp_all only: scen2)
qed

text \<open>The theorem on the three-day ledger and its middle entry.\<close>

theorem DeleteTransaction_frame_witness:
  "distinct (map ID (inventories threeDayLedger))
   \<and> dbFirst 3 threeDayLedger = Some (inventories threeDayLedger ! 1)
   \<and> TxnDate (inventories threeDayLedger ! 1) = 2
   \<and> (\<exists>s'. DeleteTransaction 3 ''admin'' None threeDayLedger = (Inr (), s')
             \<and> map ID (inventories s') = map ID (inventories threeDayLedger)
             \<and> (\<forall>r' \<in> set (inventories s'). ID r' = 3 \<longrightarrow> DeletedAt r' \<noteq> None)
             \<and> (\<forall>i < length (inventories threeDayLedger).
                   TxnDate (inventories threeDayLedger ! i) < TxnDate (inventories threeDayLedger ! 1)
                   \<longrightarrow> inventories s' ! i = inventories threeDayLedger ! i)
             \<and> balanceLaw (startBalanceBefore (OrganizationID (inventories threeDayLedger ! 1)) (ItemID (inventories threeDayLedger ! 1)) (TxnDate (inventories threeDayLedger ! 1)) s')
                   (liveTail (OrganizationID (inventories threeDayLedger ! 1)) (ItemID (inventories threeDayLedger ! 1)) (TxnDate (inventories threeDayLedger ! 1)) s')
             \<and> (\<forall>i < length (inventories threeDayLedger).
                   ID (inventories threeDayLedger ! i) \<noteq> 3
                   \<longrightarrow> DeletedAt (inventories s' ! i) = DeletedAt (inventories threeDayLedger ! i)
                       \<and> OrganizationID (inventories s' ! i) = OrganizationID (inventories threeDayLedger ! i)
                       \<and> ItemID (inventories s' ! i) = ItemID (inventories threeDayLedger ! i)
                       \<and> TxnDate (inventories s' ! i) = TxnDate (inventories threeDayLedger ! i)
                       \<and> CreatedAt (inventories s' ! i) = CreatedAt (inventories threeDayLedger ! i)
                       \<and> Type (inventories s' ! i) = Type (inventories threeDayLedger ! i)
                       \<and> (Type (inventories threeDayLedger ! i) \<noteq> InventoryTypeOpname
                            \<longrightarrow> Amount (inventories s' ! i) = Amount (inventories threeDayLedger ! i)))
             \<and> startBalanceBefore (OrganizationID (inventories threeDayLedger ! 1)) (ItemID (inventories threeDayLedger ! 1)) (TxnDate (inventories threeDayLedger ! 1)) s'
                 = startBalanceBefore (OrganizationID (inventories threeDayLedger ! 1)) (ItemID (inventories threeDayLedger ! 1)) (TxnDate (inventories threeDayLedger ! 1)) threeDayLedger
             \<and> liveTail (OrganizationID (inventories threeDayLedger ! 1)) (ItemID (inventories threeDayLedger ! 1)) (TxnDate (inventories threeDayLedger ! 1)) s'
                 = recalcArray (startBalanceBefore (OrganizationID (inventories threeDayLedger ! 1)) (ItemID (inventories threeDayLedger ! 1)) (TxnDate (inventories threeDayLedger ! 1)) threeDayLedger)
                     (filter (\<lambda>r. ID r \<noteq> 3)
                        (liveTail (OrganizationID (inventories threeDayLedger ! 1)) (ItemID (inventories threeDayLedger ! 1)) (TxnDate (inventories threeDayLedger ! 1)) threeDayLedger)))"
proof -
  have h1: "distinct (map ID (inventories threeDayLedger))"
    by (simp add: threeDayLedger_def eval_defs cong: eval_congs)
  have h2: "dbFirst 3 threeDayLedger = Some (inventories threeDayLedger ! 1)"
    by (simp add: threeDayLedger_def eval_defs cong: eval_congs)
  have h3: "TxnDate (inventories threeDayLedger ! 1) = 2"
    by (simp add: threeDayLedger_def eval_defs cong: eval_congs)
  show ?thesis
    using DeleteTransaction_frame [OF h1 h2, of "''admin''" None, THEN conjunct1]
    by (intro conjI h1 h2 h3)
qed

section \<open>Update and delete of an entry that is not live (C9)\<close>

text \<open>
  C9. When no live entry has the given id (the id is unknown, or its entry is already
  soft-deleted), update and delete fail with \<open>record not found\<close> and the store after
  them is the store before them.
\<close>

theorem update_delete_not_found:
  assumes "\<forall>r \<in> set (inventories s). ID r = inventoryID \<longrightarrow> DeletedAt r \<noteq> None"
    and "up_InventoryID req = inventoryID"
  shows "UpdateTransaction req s = (Inl ErrRecordNotFound, s)
         \<and> DeleteTransaction inventoryID deletedBy reason s = (Inl ErrRecordNotFound, s)"
proof -
  have "dbFirst inventoryID s = None"
    using assms(1) by (auto simp: dbFirst_def find_None_iff)
  then show ?thesis
    using assms(2) by (simp add: UpdateTransaction_def DeleteTransaction_def Transaction_def)
qed

text \<open>
  The theorem on the three-day ledger after the deletion of entry 3: for entry 3, which
  is soft-deleted, and for the id 99, which no entry has.
\<close>

theorem update_delete_not_found_witness:
  "map (\<lambda>r. (ID r, DeletedAt r)) (inventories threeDayDeleted)
     = [(1, None), (3, Some 8), (5, None)]
   \<and> UpdateTransaction (updateReq 3 2 (- 25)) threeDayDeleted
       = (Inl ErrRecordNotFound, threeDayDeleted)
   \<and> DeleteTransaction 3 ''admin'' None threeDayDeleted = (Inl ErrRecordNotFound, threeDayDeleted)
   \<and> UpdateTransaction (updateReq 99 2 (- 25)) threeDayDeleted
       = (Inl ErrRecordNotFound, threeDayDeleted)
   \<and> DeleteTransaction 99 ''admin'' None threeDayDeleted = (Inl ErrRecordNotFound, threeDayDeleted)"
proof -
  have h3: "\<forall>r \<in> set (inventories threeDayDeleted). ID r = 3 \<longrightarrow> DeletedAt r \<noteq> None"
    and h99: "\<forall>r \<in> set (inventories threeDayDeleted). ID r = 99 \<longrightarrow> DeletedAt r \<noteq> None"
    and rows: "map (\<lambda>r. (ID r, DeletedAt r)) (inventories threeDayDeleted)
                = [(1, None), (3, Some 8), (5, None)]"
    by (simp_all add: threeDayDeleted_def threeDayLedger_def eval_defs cong: eval_congs)
  have u3: "up_InventoryID (updateReq 3 2 (- 25)) = 3"
    and u99: "up_InventoryID (updateReq 99 2 (- 25)) = 99"
    by (simp_all add: updateReq_def)
  show ?thesis
    using update_delete_not_found [OF h3 u3, of "''admin''" None]
      update_delete_not_found [OF h99 u99, of "''admin''" None]
    by (intro conjI rows) simp_all
qed

section \<open>The two entries of a mutation (C6)\<close>

text \<open>
  C6, as the code has it. Right after a committed mutation, on a table with unique
  primary keys whose identifiers and reference ids are older than the ones the mutation
  draws, exactly two live entries carry the new reference id: the first in the source
  partition with amount \<open>-q\<close>, the second in the destination partition with amount
  \<open>+q\<close> (the amounts sum to 0), both of kind mutation, both carrying the same
  \<open>from_org_id\<close> and \<open>to_org_id\<close>, which name the two partitions. Update, delete and
  rollback act on one entry or one partition and have no step that keeps the two
  entries paired afterwards.
\<close>

theorem CreateMutation_pair:
  assumes "distinct (map ID (inventories s))"
    and "\<forall>r \<in> set (inventories s). ID r < uuid_next s"
    and "\<forall>r \<in> set (inventories s). RefID r \<noteq> Some (uuid_next s)"
    and "\<not> GetBalanceAt (mu_FromOrganizationID req) (mu_ItemID req) (mu_TxnDate req) s
             <s mu_Quantity req"
  shows "\<exists>s' a b. CreateMutation req s = (Inr (), s')
           \<and> filter (\<lambda>r. DeletedAt r = None \<and> RefID r = Some (uuid_next s)) (inventories s')
               = [a, b]
           \<and> OrganizationID a = mu_FromOrganizationID req \<and> ItemID a = mu_ItemID req
           \<and> OrganizationID b = mu_ToOrganizationID req \<and> ItemID b = mu_ItemID req
           \<and> Amount a = - mu_Quantity req \<and> Amount b = mu_Quantity req
           \<and> Amount a + Amount b = 0
           \<and> Type a = InventoryTypeMutation \<and> Type b = InventoryTypeMutation
           \<and> FromOrganizationID a = Some (mu_FromOrganizationID req)
           \<and> ToOrganizationID a = Some (mu_ToOrganizationID req)
           \<and> FromOrganizationID b = Some (mu_FromOrganizationID req)
           \<and> ToOrganizationID b = Some (mu_ToOrganizationID req)"
proof -
  let ?P = "\<lambda>r. DeletedAt r = None \<and> RefID r = Some (uuid_next s)"
  obtain tx a0 b0 where res:
      "CreateMutation req s
         = (Inr (), RecalculateForward (mu_ToOrganizationID req) (mu_ItemID req) (mu_TxnDate req)
                      (RecalculateForward (mu_FromOrganizationID req) (mu_ItemID req)
                         (mu_TxnDate req) tx))"
    and tx_rows: "inventories tx = inventories s @ [a0, b0]"
    and ab: "ID a0 = Suc (uuid_next s)" "ID b0 = Suc (Suc (uuid_next s))"
      "DeletedAt a0 = None" "DeletedAt b0 = None"
      "RefID a0 = Some (uuid_next s)" "RefID b0 = Some (uuid_next s)"
      "Type a0 = InventoryTypeMutation" "Type b0 = InventoryTypeMutation"
      "OrganizationID a0 = mu_FromOrganizationID req" "OrganizationID b0 = mu_ToOrganizationID req"
      "ItemID a0 = mu_ItemID req" "ItemID b0 = mu_ItemID req"
      "Amount a0 = - mu_Quantity req" "Amount b0 = mu_Quantity req"
      "FromOrganizationID a0 = Some (mu_FromOrganizationID req)"
      "ToOrganizationID a0 = Some (mu_ToOrganizationID req)"
      "FromOrganizationID b0 = Some (mu_FromOrganizationID req)"
      "ToOrganizationID b0 = Some (mu_ToOrganizationID req)"
    using CreateMutation_committed[OF assms(4)] by blast
  define s1 where
    "s1 = RecalculateForward (mu_FromOrganizationID req) (mu_ItemID req) (mu_TxnDate req) tx"
  define s' where
    "s' = RecalculateForward (mu_ToOrganizationID req) (mu_ItemID req) (mu_TxnDate req) s1"
  have tx_distinct: "distinct (map ID (inventories tx))"
    using assms(1,2) ab(1,2) by (auto simp: tx_rows)
  have k1: "list_all2 keeps (inventories tx) (inventories s1)"
    unfolding s1_def by (rule RecalculateForward_keeps[OF tx_distinct])
  have "distinct (map ID (inventories s1))"
    unfolding s1_def by (rule RecalculateForward_distinct[OF tx_distinct])
  then have k2: "list_all2 keeps (inventories s1) (inventories s')"
    unfolding s'_def by (rule RecalculateForward_keeps)
  have k: "list_all2 keeps (inventories tx) (inventories s')"
    using k1 k2 keeps_trans by (rule list_all2_trans[rotated])
  have "filter ?P (inventories tx) = [a0, b0]"
    using assms(3) ab(3-6) by (simp add: tx_rows)
  moreover have "list_all2 keeps (filter ?P (inventories tx)) (filter ?P (inventories s'))"
    using k by (rule list_all2_keeps_filter) (simp add: keeps_def)
  ultimately obtain a b where f: "filter ?P (inventories s') = [a, b]" "keeps a0 a" "keeps b0 b"
    by (auto simp: list_all2_Cons1)
  have ne: "InventoryTypeMutation \<noteq> InventoryTypeOpname"
    by (simp add: InventoryTypeMutation_def InventoryTypeOpname_def)
  have a: "OrganizationID a = mu_FromOrganizationID req" "ItemID a = mu_ItemID req"
    "Amount a = - mu_Quantity req" "Type a = InventoryTypeMutation"
    "FromOrganizationID a = Some (mu_FromOrganizationID req)"
    "ToOrganizationID a = Some (mu_ToOrganizationID req)"
    using f(2) ab ne by (simp_all add: keeps_def)
  have b: "OrganizationID b = mu_ToOrganizationID req" "ItemID b = mu_ItemID req"
    "Amount b = mu_Quantity req" "Type b = InventoryTypeMutation"
    "FromOrganizationID b = Some (mu_FromOrganizationID req)"
    "ToOrganizationID b = Some (mu_ToOrganizationID req)"
    using f(3) ab ne by (simp_all add: keeps_def)
  show ?thesis
    by (rule exI[of _ s'], rule exI[of _ a], rule exI[of _ b])
       (use res f(1) a b in \<open>simp add: s'_def s1_def\<close>)
qed

text \<open>The theorem on the transfer of 150 out of the partition that received 500.\<close>

theorem CreateMutation_pair_witness:
  "map (\<lambda>r. (ID r, RefID r)) (inventories receiptLedger) = [(1, None)]
   \<and> uuid_next receiptLedger = 3
   \<and> GetBalanceAt 101 1 2 receiptLedger = 500
   \<and> (\<exists>s' a b. CreateMutation (mutationReq 101 102 1 150 2) receiptLedger = (Inr (), s')
           \<and> filter (\<lambda>r. DeletedAt r = None \<and> RefID r = Some (uuid_next receiptLedger))
                (inventories s') = [a, b]
           \<and> OrganizationID a = 101 \<and> ItemID a = 1
           \<and> OrganizationID b = 102 \<and> ItemID b = 1
           \<and> Amount a = - 150 \<and> Amount b = 150
           \<and> Amount a + Amount b = 0
           \<and> Type a = InventoryTypeMutation \<and> Type b = InventoryTypeMutation
           \<and> FromOrganizationID a = Some 101 \<and> ToOrganizationID a = Some 102
           \<and> FromOrganizationID b = Some 101 \<and> ToOrganizationID b = Some 102)"
proof -
  have h1: "distinct (map ID (inventories receiptLedger))"
    and h2: "\<forall>r \<in> set (inventories receiptLedger). ID r < uuid_next receiptLedger"
    and h3: "\<forall>r \<in> set (inventories receiptLedger). RefID r \<noteq> Some (uuid_next receiptLedger)"
    and bal: "GetBalanceAt 101 1 2 receiptLedger = 500"
    and rows: "map (\<lambda>r. (ID r, RefID r)) (inventories receiptLedger) = [(1, None)]"
    and nxt: "uuid_next receiptLedger = 3"
    by (simp_all add: receiptLedger_def eval_defs cong: eval_congs)
  have h4: "\<not> GetBalanceAt (mu_FromOrganizationID (mutationReq 101 102 1 150 2))
               (mu_ItemID (mutationReq 101 102 1 150 2))
               (mu_TxnDate (mutationReq 101 102 1 150 2)) receiptLedger
             <s mu_Quantity (mutationReq 101 102 1 150 2)"
    using bal by (simp add: mutationReq_def word_sless_alt)
  have sel: "mu_FromOrganizationID (mutationReq 101 102 1 150 2) = 101"
    "mu_ToOrganizationID (mutationReq 101 102 1 150 2) = 102"
    "mu_ItemID (mutationReq 101 102 1 150 2) = 1"
    "mu_Quantity (mutationReq 101 102 1 150 2) = 150"
    by (simp_all add: mutationReq_def)
  show ?thesis
    using CreateMutation_pair [OF h1 h2 h3 h4]
    unfolding sel by (intro conjI rows nxt bal)
qed

text \<open>
  C6 as stated fails: after the transfer, deleting the source entry (entry 4) commits and
  leaves the destination entry as the only live entry with reference 3.
\<close>

theorem delete_leaves_single_leg:
  "fst (DeleteTransaction 4 ''admin'' None transferLedger) = Inr ()
   \<and> map (\<lambda>r. (ID r, OrganizationID r, Type r, RefID r, Amount r))
        (filter (\<lambda>r. DeletedAt r = None \<and> RefID r = Some 3)
           (inventories (snd (DeleteTransaction 4 ''admin'' None transferLedger))))
      = [(5, 102, ''mutation'', Some 3, 150)]"
  by (simp add: transferLedger_def receiptLedger_def eval_defs cong: eval_congs)

section \<open>The replacement entry of an update (C10)\<close>

text \<open>
  C10. A successful update of a live entry, on a table with unique primary keys whose
  identifiers are older than the ones the update draws, inserts exactly one entry, under
  a new id, and that entry has the organization, the item, the kind and the reference id
  of the entry it replaces, which is soft-deleted: an update moves no entry to another
  partition and changes no kind. This holds for the update of a count entry as well.
\<close>

theorem UpdateTransaction_replacement:
  assumes "distinct (map ID (inventories s))"
    and "\<forall>r \<in> set (inventories s). ID r < uuid_next s"
    and "dbFirst (up_InventoryID req) s = Some old"
  shows "\<exists>s' new. UpdateTransaction req s = (Inr (), s')
           \<and> map ID (inventories s') = map ID (inventories s) @ [ID new]
           \<and> last (inventories s') = new
           \<and> ID new \<notin> ID ` set (inventories s)
           \<and> DeletedAt new = None
           \<and> TxnDate new = up_TxnDate req
           \<and> OrganizationID new = OrganizationID old
           \<and> ItemID new = ItemID old
           \<and> Type new = Type old
           \<and> RefID new = RefID old
           \<and> (\<forall>r' \<in> set (inventories s'). ID r' = ID old \<longrightarrow> DeletedAt r' \<noteq> None)"
proof -
  let ?old' = "old\<lparr>DeletedBy := Some (up_ChangedBy req), DeletedAt := Some (Suc (clock s))\<rparr>"
  let ?h = "\<lambda>r. if ID r = ID ?old' then ?old' else r"
  obtain tx n d where res:
      "UpdateTransaction req s = (Inr (), RecalculateForward (OrganizationID old) (ItemID old) d tx)"
    and tx_rows: "inventories tx = saveRow ?old' (inventories s) @ [n]"
    and n: "ID n = Suc (uuid_next s)" "DeletedAt n = None" "TxnDate n = up_TxnDate req"
      "OrganizationID n = OrganizationID old" "ItemID n = ItemID old"
      "Type n = Type old" "RefID n = RefID old"
    using UpdateTransaction_found[OF assms(3)] by blast
  define s' where "s' = RecalculateForward (OrganizationID old) (ItemID old) d tx"
  have old: "old \<in> set (inventories s)" "DeletedAt old = None"
    using dbFirst_Some[OF assms(3)] by simp_all
  have saved: "saveRow ?old' (inventories s) = map ?h (inventories s)"
    using old(1) by (simp add: saveRow_present)
  have saved_ids: "map ID (saveRow ?old' (inventories s)) = map ID (inventories s)"
    by (simp add: saved comp_def)
  have fresh: "ID n \<notin> ID ` set (inventories s)"
    using assms(2) n(1) by auto
  have tx_distinct: "distinct (map ID (inventories tx))"
    using assms(1) fresh by (simp add: tx_rows saved_ids)
  have keeps: "list_all2 keeps (saveRow ?old' (inventories s) @ [n]) (inventories s')"
    using RecalculateForward_keeps[OF tx_distinct] by (simp add: s'_def tx_rows)
  then obtain us new where us: "inventories s' = us @ [new]"
      "list_all2 keeps (saveRow ?old' (inventories s)) us" "keeps n new"
    using list_all2_keeps_snoc by blast
  have ids: "map ID (inventories s') = map ID (inventories s) @ [ID new]"
    using keeps_map_ID[OF us(2)] by (simp add: us(1) saved_ids)
  have new_id: "ID new \<notin> ID ` set (inventories s)"
    using fresh us(3) by (simp add: keeps_def)
  have tomb: "DeletedAt r' \<noteq> None"
    if mem: "r' \<in> set (inventories s')" and id: "ID r' = ID old" for r'
  proof -
    obtain x where x: "x \<in> set (saveRow ?old' (inventories s) @ [n])" "keeps x r'"
      using list_all2_keeps_origin[OF keeps mem] by blast
    have idx: "ID x = ID old" using x(2) id by (simp add: keeps_def)
    then have "x \<noteq> n" using fresh old(1) by auto
    then obtain r where r: "r \<in> set (inventories s)" "x = ?h r"
      using x(1) by (auto simp: saved)
    have "ID r = ID old" using r(2) idx by (simp split: if_splits)
    then have "x = ?old'" using r(2) by simp
    then show ?thesis using x(2) by (simp add: keeps_def)
  qed
  show ?thesis
    by (rule exI[of _ s'], rule exI[of _ new])
       (use res ids new_id n us(3) tomb in \<open>simp add: s'_def [symmetric] us(1) keeps_def\<close>)
qed

text \<open>
  The theorem on the issue of day 2 of the three-day ledger, and on the count entry of
  the ledger with a count.
\<close>

theorem UpdateTransaction_replacement_witness:
  "(map ID (inventories threeDayLedger) = [1, 3, 5]
    \<and> uuid_next threeDayLedger = 7
    \<and> dbFirst (up_InventoryID (updateReq 3 2 (- 25))) threeDayLedger
        = Some (inventories threeDayLedger ! 1)
    \<and> Type (inventories threeDayLedger ! 1) = ''pemakaian''
    \<and> (\<exists>s' new. UpdateTransaction (updateReq 3 2 (- 25)) threeDayLedger = (Inr (), s')
           \<and> map ID (inventories s') = map ID (inventories threeDayLedger) @ [ID new]
           \<and> last (inventories s') = new
           \<and> ID new \<notin> ID ` set (inventories threeDayLedger)
           \<and> DeletedAt new = None
           \<and> TxnDate new = up_TxnDate (updateReq 3 2 (- 25))
           \<and> OrganizationID new = OrganizationID (inventories threeDayLedger ! 1)
           \<and> ItemID new = ItemID (inventories threeDayLedger ! 1)
           \<and> Type new = Type (inventories threeDayLedger ! 1)
           \<and> RefID new = RefID (inventories threeDayLedger ! 1)
           \<and> (\<forall>r' \<in> set (inventories s').
                 ID r' = ID (inventories threeDayLedger ! 1) \<longrightarrow> DeletedAt r' \<noteq> None)))
   \<and> (map ID (inventories countLedger) = [1, 3]
    \<and> uuid_next countLedger = 5
    \<and> dbFirst (up_InventoryID (updateReq 3 4 5)) countLedger = Some (inventories countLedger ! 1)
    \<and> Type (inventories countLedger ! 1) = ''opname''
    \<and> (\<exists>s' new. UpdateTransaction (updateReq 3 4 5) countLedger = (Inr (), s')
           \<and> map ID (inventories s') = map ID (inventories countLedger) @ [ID new]
           \<and> last (inventories s') = new
           \<and> ID new \<notin> ID ` set (inventories countLedger)
           \<and> DeletedAt new = None
           \<and> TxnDate new = up_TxnDate (updateReq 3 4 5)
           \<and> OrganizationID new = OrganizationID (inventories countLedger ! 1)
           \<and> ItemID new = ItemID (inventories countLedger ! 1)
           \<and> Type new = Type (inventories countLedger ! 1)
           \<and> RefID new = RefID (inventories countLedger ! 1)
           \<and> (\<forall>r' \<in> set (inventories s').
                 ID r' = ID (inventories countLedger ! 1) \<longrightarrow> DeletedAt r' \<noteq> None)))"
proof -
  have a1: "distinct (map ID (inventories threeDayLedger))"
    and a2: "\<forall>r \<in> set (inventories threeDayLedger). ID r < uuid_next threeDayLedger"
    and a3: "dbFirst (up_InventoryID (updateReq 3 2 (- 25))) threeDayLedger
              = Some (inventories threeDayLedger ! 1)"
    and a4: "Type (inventories threeDayLedger ! 1) = ''pemakaian''"
    and a5: "map ID (inventories threeDayLedger) = [1, 3, 5]"
    and a6: "uuid_next threeDayLedger = 7"
    by (simp_all add: threeDayLedger_def eval_defs cong: eval_congs)
  have b1: "distinct (map ID (inventories countLedger))"
    and b2: "\<forall>r \<in> set (inventories countLedger). ID r < uuid_next countLedger"
    and b3: "dbFirst (up_InventoryID (updateReq 3 4 5)) countLedger
              = Some (inventories countLedger ! 1)"
    and b4: "Type (inventories countLedger ! 1) = ''opname''"
    and b5: "map ID (inventories countLedger) = [1, 3]"
    and b6: "uuid_next countLedger = 5"
    by (simp_all add: countLedger_def eval_defs cong: eval_congs)
  show ?thesis
    using UpdateTransaction_replacement [OF a1 a2 a3] UpdateTransaction_replacement [OF b1 b2 b3]
    by (intro conjI a3 a4 a5 a6 b3 b4 b5 b6)
qed

end
